theory Spec2Isabelle
  imports Main "HOL-Library.AList"
begin

section \<open>JavaScript string primitives used by the clients\<close>

text \<open>
  Strings are lists of code units. \<open>String.prototype.split\<close> with a one-character
  separator never returns an empty array: the empty string splits into one empty piece.
\<close>

fun split_on :: "char \<Rightarrow> string \<Rightarrow> string list" where
  "split_on c [] = [ [] ]"
| "split_on c (x # xs) =
     (if x = c then [] # split_on c xs
      else (case split_on c xs of [] \<Rightarrow> [ [x] ] | w # ws \<Rightarrow> (x # w) # ws))"

text \<open>\<open>Array.prototype.join\<close> with a separator string.\<close>

fun join :: "string \<Rightarrow> string list \<Rightarrow> string" where
  "join sep [] = []"
| "join sep [x] = x"
| "join sep (x # y # ys) = x @ sep @ join sep (y # ys)"

text \<open>\<open>s.indexOf(sub) > -1\<close>: the string \<open>sub\<close> occurs somewhere in \<open>s\<close>.\<close>

fun starts_with :: "string \<Rightarrow> string \<Rightarrow> bool" where
  "starts_with [] s = True"
| "starts_with (p # ps) [] = False"
| "starts_with (p # ps) (x # xs) = (p = x \<and> starts_with ps xs)"

fun str_includes :: "string \<Rightarrow> string \<Rightarrow> bool" where
  "str_includes sub [] = (sub = [])"
| "str_includes sub (x # xs) = (starts_with sub (x # xs) \<or> str_includes sub xs)"

text \<open>
  The line terminators that the regular-expression atom \<open>.\<close> refuses. Code units are
  eight bits wide here, so of the four JavaScript line terminators only line feed and
  carriage return exist.
\<close>

definition line_terminator :: "char \<Rightarrow> bool" where
  "line_terminator c = (c = CHR 0x0A \<or> c = CHR 0x0D)"

text \<open>
  The replacement-string expansion of \<open>String.prototype.replace\<close> for a pattern
  without capture groups: \<open>$$\<close> is a dollar sign, \<open>$&\<close> the matched text,
  \<open>$`\<close> the text before the match, \<open>$'\<close> the text after it; every other
  character, and a dollar sign followed by anything else, stands for itself.
\<close>

fun getSubstitution :: "string \<Rightarrow> string \<Rightarrow> string \<Rightarrow> string \<Rightarrow> string" where
  "getSubstitution matched pre post [] = []"
| "getSubstitution matched pre post [c] = [c]"
| "getSubstitution matched pre post (c # d # rest) =
     (if c = CHR ''$'' then
        (if d = CHR ''$'' then CHR ''$'' # getSubstitution matched pre post rest
         else if d = CHR ''&'' then matched @ getSubstitution matched pre post rest
         else if d = CHR 0x60 then pre @ getSubstitution matched pre post rest
         else if d = CHR 0x27 then post @ getSubstitution matched pre post rest
         else c # getSubstitution matched pre post (d # rest))
      else c # getSubstitution matched pre post (d # rest))"

text \<open>
  \<open>item.replace(/(?<==).*$/, apiVersion)\<close>. The pattern matches at the first position
  that directly follows an equals sign and from which no line terminator occurs up to
  the end of the string; the match then runs to the end of the string. \<open>seen\<close> is the
  text already scanned (in order), \<open>rest\<close> the text still ahead. Without a match the
  string is returned as it is.
\<close>

fun replace_after_eq :: "string \<Rightarrow> string \<Rightarrow> string \<Rightarrow> string" where
  "replace_after_eq seen [] repl =
     (if seen \<noteq> [] \<and> last seen = CHR ''=''
      then seen @ getSubstitution [] seen [] repl else seen)"
| "replace_after_eq seen (x # xs) repl =
     (if seen \<noteq> [] \<and> last seen = CHR ''='' \<and> \<not> list_ex line_terminator (x # xs)
      then seen @ getSubstitution (x # xs) seen [] repl
      else replace_after_eq (seen @ [x]) xs repl)"

section \<open>The api-version pipeline policy of the generated clients\<close>

text \<open>
  Of a pipeline request only the URL matters to the policy; the other parts of the
  request travel along unchanged in \<open>more\<close>.
\<close>

record PipelineRequest =
  url :: string

text \<open>
  The closure passed to \<open>map\<close> in \<open>WorkloadsClient.addCustomApiVersionPolicy\<close>
  (it keeps the text up to the first equals sign and replaces what follows) and in
  \<open>PaloAltoNetworksCloudngfw.addCustomApiVersionPolicy\<close> (it replaces the whole item).
\<close>

definition workloads_item :: "string \<Rightarrow> string \<Rightarrow> string" where
  "workloads_item apiVersion item =
     (if str_includes ''api-version'' item then replace_after_eq [] item apiVersion else item)"

definition paloalto_item :: "string \<Rightarrow> string \<Rightarrow> string" where
  "paloalto_item apiVersion item =
     (if str_includes ''api-version'' item then ''api-version='' @ apiVersion else item)"

text \<open>
  \<open>sendRequest(request, next)\<close> of the policy object, for a given item closure. The URL
  is split at every question mark; only the first two pieces are used.
\<close>

definition rewrite_url :: "(string \<Rightarrow> string) \<Rightarrow> string \<Rightarrow> string" where
  "rewrite_url f u =
     (case split_on CHR ''?'' u of
        p0 # p1 # ps \<Rightarrow> p0 @ ''?'' @ join ''&'' (map f (split_on CHR ''&'' p1))
      | _ \<Rightarrow> u)"

definition workloads_sendRequest ::
  "string \<Rightarrow> 'm PipelineRequest_scheme \<Rightarrow> ('m PipelineRequest_scheme \<Rightarrow> 'r) \<Rightarrow> 'r" where
  "workloads_sendRequest apiVersion request next =
     next (request\<lparr>url := rewrite_url (workloads_item apiVersion) (url request)\<rparr>)"

definition paloalto_sendRequest ::
  "string \<Rightarrow> 'm PipelineRequest_scheme \<Rightarrow> ('m PipelineRequest_scheme \<Rightarrow> 'r) \<Rightarrow> 'r" where
  "paloalto_sendRequest apiVersion request next =
     next (request\<lparr>url := rewrite_url (paloalto_item apiVersion) (url request)\<rparr>)"

text \<open>
  A pipeline is the list of its policies; \<open>pipeline.addPolicy\<close> and
  \<open>pipeline.removePolicy\<close> belong to the pipeline library and are taken as appending
  a policy and as dropping the policies of a given name.
\<close>

record ('m, 'r) PipelinePolicy =
  policy_name :: string
  sendRequest :: "'m PipelineRequest_scheme \<Rightarrow> ('m PipelineRequest_scheme \<Rightarrow> 'r) \<Rightarrow> 'r"

type_synonym ('m, 'r) Pipeline = "('m, 'r) PipelinePolicy list"

definition addPolicy :: "('m, 'r) PipelinePolicy \<Rightarrow> ('m, 'r) Pipeline \<Rightarrow> ('m, 'r) Pipeline" where
  "addPolicy p pl = pl @ [p]"

definition removePolicy :: "string \<Rightarrow> ('m, 'r) Pipeline \<Rightarrow> ('m, 'r) Pipeline" where
  "removePolicy n pl = filter (\<lambda>p. policy_name p \<noteq> n) pl"

text \<open>
  JavaScript truthiness of an optional string: \<open>undefined\<close> (\<open>None\<close>) and the empty
  string are falsy. \<open>a || b\<close> on such a value takes \<open>b\<close> when \<open>a\<close> is falsy,
  \<open>a ?? b\<close> only when \<open>a\<close> is missing.
\<close>

fun truthy_string :: "string option \<Rightarrow> bool" where
  "truthy_string None = False"
| "truthy_string (Some s) = (s \<noteq> [])"

definition or_default :: "string option \<Rightarrow> string \<Rightarrow> string" where
  "or_default a b = (case a of None \<Rightarrow> b | Some s \<Rightarrow> if s = [] then b else s)"

text \<open>
  \<open>addCustomApiVersionPolicy(apiVersion?)\<close> of both generated clients: nothing is
  added for a falsy version.
\<close>

definition workloads_addCustomApiVersionPolicy ::
  "string option \<Rightarrow> ('m, 'r) Pipeline \<Rightarrow> ('m, 'r) Pipeline" where
  "workloads_addCustomApiVersionPolicy apiVersion pl =
     (case apiVersion of
        None \<Rightarrow> pl
      | Some v \<Rightarrow>
          if v = [] then pl
          else addPolicy \<lparr>policy_name = ''CustomApiVersionPolicy'',
                          sendRequest = workloads_sendRequest v\<rparr> pl)"

definition paloalto_addCustomApiVersionPolicy ::
  "string option \<Rightarrow> ('m, 'r) Pipeline \<Rightarrow> ('m, 'r) Pipeline" where
  "paloalto_addCustomApiVersionPolicy apiVersion pl =
     (case apiVersion of
        None \<Rightarrow> pl
      | Some v \<Rightarrow>
          if v = [] then pl
          else addPolicy \<lparr>policy_name = ''CustomApiVersionPolicy'',
                          sendRequest = paloalto_sendRequest v\<rparr> pl)"

section \<open>Client constructors\<close>

text \<open>What a \<open>throw\<close> carries: the constructor of the error and its message.\<close>

datatype error = Error string | TypeError string

definition quoted :: "string \<Rightarrow> string" where
  "quoted s = CHR 0x27 # s @ [CHR 0x27]"

text \<open>
  The options bag of the generated clients, with the members the constructors read.
  \<open>opt_userAgentPrefix\<close> is \<open>options.userAgentOptions.userAgentPrefix\<close>, missing when
  either level is missing.
\<close>

record ('m, 'r) ClientOptionalParams =
  opt_userAgentPrefix :: "string option"
  opt_credentialScopes :: "string list option"
  opt_endpoint :: "string option"
  opt_baseUri :: "string option"
  opt_pipeline :: "('m, 'r) Pipeline option"
  opt_host :: "string option"
  opt_apiVersion :: "string option"

definition empty_options :: "('m, 'r) ClientOptionalParams" where
  "empty_options = \<lparr>opt_userAgentPrefix = None, opt_credentialScopes = None,
     opt_endpoint = None, opt_baseUri = None, opt_pipeline = None, opt_host = None,
     opt_apiVersion = None\<rparr>"

text \<open>
  What the pipeline library contributes to a generated client: the pipeline that the base
  class \<open>ServiceClient\<close> builds when the options carry none, the name of the bearer-token
  policy, and the policy that \<open>bearerTokenAuthenticationPolicy\<close> returns for given
  scopes.
\<close>

record ('m, 'r) CoreLibrary =
  defaultPipeline :: "('m, 'r) Pipeline"
  bearerTokenAuthenticationPolicyName :: string
  bearerTokenAuthenticationPolicy :: "string list \<Rightarrow> ('m, 'r) PipelinePolicy"

definition serviceClient_pipeline ::
  "('m, 'r) CoreLibrary \<Rightarrow> ('m, 'r) ClientOptionalParams \<Rightarrow> ('m, 'r) Pipeline" where
  "serviceClient_pipeline lib options =
     (case opt_pipeline options of Some pl \<Rightarrow> pl | None \<Rightarrow> defaultPipeline lib)"

definition userAgentPrefix_of :: "('m, 'r) ClientOptionalParams \<Rightarrow> string \<Rightarrow> string" where
  "userAgentPrefix_of options packageDetails =
     (if truthy_string (opt_userAgentPrefix options)
      then or_default (opt_userAgentPrefix options) [] @ '' '' @ packageDetails
      else packageDetails)"

definition endpoint_of :: "('m, 'r) ClientOptionalParams \<Rightarrow> string" where
  "endpoint_of options =
     (case opt_endpoint options of
        Some e \<Rightarrow> e
      | None \<Rightarrow> (case opt_baseUri options of
                   Some b \<Rightarrow> b
                 | None \<Rightarrow> ''https://management.azure.com''))"

record ('c, 'm, 'r) GeneratedClient =
  client_credential :: 'c
  client_userAgentPrefix :: string
  client_endpoint :: string
  client_pipeline :: "('m, 'r) Pipeline"
  client_subscriptionId :: "string option"
  client_host :: string
  client_apiVersion :: string

text \<open>
  \<open>new WorkloadsClient(credentials, subscriptionId, options?)\<close>. A missing argument is
  \<open>None\<close> (\<open>undefined\<close>). The two checks are the first statements of the constructor.
\<close>

definition WorkloadsClient ::
  "('m, 'r) CoreLibrary \<Rightarrow> 'c option \<Rightarrow> string option \<Rightarrow>
   ('m, 'r) ClientOptionalParams option \<Rightarrow> error + ('c, 'm, 'r) GeneratedClient" where
  "WorkloadsClient lib credentials subscriptionId options0 =
     (case credentials of
        None \<Rightarrow> Inl (Error (quoted ''credentials'' @ '' cannot be null''))
      | Some cred \<Rightarrow>
     (case subscriptionId of
        None \<Rightarrow> Inl (Error (quoted ''subscriptionId'' @ '' cannot be null''))
      | Some sub \<Rightarrow>
          let options1 = (case options0 of None \<Rightarrow> empty_options | Some opts \<Rightarrow> opts);
              userAgentPrefix = userAgentPrefix_of options1 ''azsdk-js-arm-workloads/1.0.0-beta.1'';
              options = (case opt_credentialScopes options1 of
                           None \<Rightarrow> options1\<lparr>opt_credentialScopes :=
                                      Some [''https://management.azure.com/.default'']\<rparr>
                         | Some scopes \<Rightarrow> options1);
              baseUri = endpoint_of options;
              pl0 = serviceClient_pipeline lib options;
              pl1 = (case opt_pipeline options of
                       None \<Rightarrow> pl0
                     | Some given \<Rightarrow>
                         if length given > 0 \<and>
                            \<not> list_ex (\<lambda>p. policy_name p = bearerTokenAuthenticationPolicyName lib) given
                         then addPolicy (bearerTokenAuthenticationPolicy lib [baseUri @ ''/.default''])
                                (removePolicy (bearerTokenAuthenticationPolicyName lib) pl0)
                         else pl0)
          in Inr \<lparr>client_credential = cred,
                   client_userAgentPrefix = userAgentPrefix,
                   client_endpoint = baseUri,
                   client_pipeline = workloads_addCustomApiVersionPolicy (opt_apiVersion options) pl1,
                   client_subscriptionId = Some sub,
                   client_host = or_default (opt_host options) ''https://management.azure.com'',
                   client_apiVersion = or_default (opt_apiVersion options) ''2021-12-01-preview''\<rparr>))"

text \<open>
  The second argument of \<open>new PaloAltoNetworksCloudngfw(credentials, subscriptionIdOrOptions?,
  options?)\<close> is a string, an options object or missing.
\<close>

datatype 'o subscriptionIdOrOptions = IsString string | IsObject 'o | IsUndefined

definition PaloAltoNetworksCloudngfw ::
  "('m, 'r) CoreLibrary \<Rightarrow> 'c option \<Rightarrow> ('m, 'r) ClientOptionalParams subscriptionIdOrOptions \<Rightarrow>
   ('m, 'r) ClientOptionalParams option \<Rightarrow> error + ('c, 'm, 'r) GeneratedClient" where
  "PaloAltoNetworksCloudngfw lib credentials subscriptionIdOrOptions options0 =
     (case credentials of
        None \<Rightarrow> Inl (Error (quoted ''credentials'' @ '' cannot be null''))
      | Some cred \<Rightarrow>
          let subscriptionId = (case subscriptionIdOrOptions of IsString s \<Rightarrow> Some s | _ \<Rightarrow> None);
              options1 = (case subscriptionIdOrOptions of
                            IsString s \<Rightarrow> options0
                          | IsObject opts \<Rightarrow> Some opts
                          | IsUndefined \<Rightarrow> options0);
              options = (case options1 of None \<Rightarrow> empty_options | Some opts \<Rightarrow> opts);
              userAgentPrefix = userAgentPrefix_of options ''azsdk-js-arm-paloaltonetworksngfw/1.0.0'';
              endpoint = endpoint_of options;
              pl0 = serviceClient_pipeline lib options;
              bearerTokenAuthenticationPolicyFound =
                (case opt_pipeline options of
                   None \<Rightarrow> False
                 | Some given \<Rightarrow>
                     length given > 0 \<and>
                     list_ex (\<lambda>p. policy_name p = bearerTokenAuthenticationPolicyName lib) given);
              pl1 = (if \<not> bearerTokenAuthenticationPolicyFound
                     then addPolicy
                            (bearerTokenAuthenticationPolicy lib
                               (case opt_credentialScopes options of
                                  Some scopes \<Rightarrow> scopes
                                | None \<Rightarrow> [endpoint @ ''/.default'']))
                            (removePolicy (bearerTokenAuthenticationPolicyName lib) pl0)
                     else pl0)
          in Inr \<lparr>client_credential = cred,
                   client_userAgentPrefix = userAgentPrefix,
                   client_endpoint = endpoint,
                   client_pipeline = paloalto_addCustomApiVersionPolicy (opt_apiVersion options) pl1,
                   client_subscriptionId = subscriptionId,
                   client_host = or_default (opt_host options) ''https://management.azure.com'',
                   client_apiVersion = or_default (opt_apiVersion options) ''2022-08-29''\<rparr>)"

text \<open>
  The Key Vault \<open>SecretClient\<close>. \<open>pipelineOptions.userAgentOptions\<close> is an object
  or missing. Of the pipeline options only the two that the constructor touches are kept:
  \<open>userAgentOptions\<close> and \<open>loggingOptions\<close>.
\<close>

record UserAgentOptions =
  userAgentPrefix :: "string option"

record LoggingOptions =
  allowedHeaderNames :: "string list"

record PipelineOptions =
  userAgentOptions :: "UserAgentOptions option"
  loggingOptions :: "LoggingOptions option"

text \<open>
  The collaborators of the constructor that come from the HTTP library: the constant
  \<open>SDK_VERSION\<close>, the test \<open>isTokenCredential\<close> and \<open>createPipelineFromOptions\<close>,
  which may throw.
\<close>

datatype 'c AuthPolicy = challengeBasedAuthenticationPolicy "'c option" | signingPolicy "'c option"

record ('c, 'p) SecretClientEnv =
  SDK_VERSION :: string
  isTokenCredential :: "'c option \<Rightarrow> bool"
  createPipelineFromOptions :: "PipelineOptions \<Rightarrow> 'c AuthPolicy \<Rightarrow> error + 'p"

definition SERVICE_API_VERSION :: string where
  "SERVICE_API_VERSION = ''7.0''"

text \<open>
  Modelled from the spec: the constructor of the generated \<open>KeyVaultClient\<close>
  (\<open>./core/keyVaultClient\<close>) is not among the sources. The spec has construction fail
  fast and synchronously on a missing required credential: the constructor throws when the
  credential is missing, and otherwise keeps what it is given.
\<close>

record ('c, 'p) KeyVaultClient =
  kv_credentials :: 'c
  kv_apiVersion :: string
  kv_pipeline :: 'p

definition new_KeyVaultClient :: "'c option \<Rightarrow> string \<Rightarrow> 'p \<Rightarrow> error + ('c, 'p) KeyVaultClient" where
  "new_KeyVaultClient credentials apiVersion pl =
     (case credentials of
        None \<Rightarrow> Inl (Error (quoted ''credentials'' @ '' cannot be null.''))
      | Some cred \<Rightarrow> Inr \<lparr>kv_credentials = cred, kv_apiVersion = apiVersion, kv_pipeline = pl\<rparr>)"

record ('c, 'p) SecretClient =
  vaultUrl :: "string option"
  credential :: "'c option"
  pipeline :: 'p
  client :: "('c, 'p) KeyVaultClient"

text \<open>
  The statement on \<open>userAgentOptions\<close> at the head of the constructor: with an object
  present, the conditional expression is evaluated and its value dropped; without one,
  the caller's options object receives a fresh \<open>userAgentOptions\<close>.
\<close>

definition libInfo :: "string \<Rightarrow> string" where
  "libInfo sdk_version = ''azsdk-js-keyvault-secrets/'' @ sdk_version"

definition set_userAgentOptions :: "string \<Rightarrow> PipelineOptions \<Rightarrow> PipelineOptions" where
  "set_userAgentOptions sdk_version pipelineOptions =
     (case userAgentOptions pipelineOptions of
        Some ua \<Rightarrow> pipelineOptions
      | None \<Rightarrow> pipelineOptions\<lparr>userAgentOptions :=
                  Some \<lparr>userAgentPrefix = Some (libInfo sdk_version)\<rparr>\<rparr>)"

definition internalPipelineOptions :: "PipelineOptions \<Rightarrow> PipelineOptions" where
  "internalPipelineOptions pipelineOptions =
     pipelineOptions\<lparr>loggingOptions := Some \<lparr>allowedHeaderNames =
       [''x-ms-keyvault-region'', ''x-ms-keyvault-network-info'',
        ''x-ms-keyvault-service-version'']\<rparr>\<rparr>"

text \<open>
  \<open>isTokenCredential(credential) ? challengeBasedAuthenticationPolicy(credential) :
  signingPolicy(credential)\<close>.
\<close>

definition authPolicy_of :: "('c, 'p) SecretClientEnv \<Rightarrow> 'c option \<Rightarrow> 'c AuthPolicy" where
  "authPolicy_of env cred =
     (if isTokenCredential env cred
      then challengeBasedAuthenticationPolicy cred
      else signingPolicy cred)"

text \<open>
  \<open>new SecretClient(vaultUrl, credential, pipelineOptions = {})\<close>: the result, and the
  caller's options object as the constructor leaves it.
\<close>

definition new_SecretClient ::
  "('c, 'p) SecretClientEnv \<Rightarrow> string option \<Rightarrow> 'c option \<Rightarrow> PipelineOptions \<Rightarrow>
   (error + ('c, 'p) SecretClient) \<times> PipelineOptions" where
  "new_SecretClient env vaultUrl0 credential0 pipelineOptions0 =
     (let pipelineOptions = set_userAgentOptions (SDK_VERSION env) pipelineOptions0;
          authPolicy = authPolicy_of env credential0
      in (case createPipelineFromOptions env (internalPipelineOptions pipelineOptions) authPolicy of
            Inl e \<Rightarrow> (Inl e, pipelineOptions)
          | Inr pl \<Rightarrow>
              (case new_KeyVaultClient credential0 SERVICE_API_VERSION pl of
                 Inl e \<Rightarrow> (Inl e, pipelineOptions)
               | Inr kv \<Rightarrow>
                   (Inr \<lparr>vaultUrl = vaultUrl0, credential = credential0,
                          pipeline = pl, client = kv\<rparr>, pipelineOptions))))"

section \<open>Shaping a secret bundle into a client secret\<close>

text \<open>
  Bundles are plain JavaScript objects that the code spreads and deletes from, so an
  object is the list of its own properties. A property is read through \<open>get\<close>, which
  gives \<open>undefined\<close> for a missing one.
\<close>

datatype jsval =
    JUndefined
  | JNull
  | JBool bool
  | JStr string
  | JDate int
  | JObj "(string \<times> jsval) list"

type_synonym jsobj = "(string \<times> jsval) list"

definition get :: "jsobj \<Rightarrow> string \<Rightarrow> jsval" where
  "get obj k = (case map_of obj k of None \<Rightarrow> JUndefined | Some v \<Rightarrow> v)"

fun truthy :: "jsval \<Rightarrow> bool" where
  "truthy JUndefined = False"
| "truthy JNull = False"
| "truthy (JBool b) = b"
| "truthy (JStr s) = (s \<noteq> [])"
| "truthy (JDate d) = True"
| "truthy (JObj obj) = True"

text \<open>\<open>{...target, ...source}\<close>: the properties of the source are written over the target.\<close>

definition spread :: "jsobj \<Rightarrow> jsobj \<Rightarrow> jsobj" where
  "spread target source = foldr (\<lambda>(k, v) acc. AList.update k v acc) source target"

text \<open>
  The own enumerable properties that a spread copies out of a value: those of an object,
  the indexed characters of a string, none for the other primitives.
\<close>

fun decimal :: "nat \<Rightarrow> string" where
  "decimal n =
     (if n < 10 then [char_of (48 + n)] else decimal (n div 10) @ [char_of (48 + n mod 10)])"

definition own_properties :: "jsval \<Rightarrow> jsobj" where
  "own_properties v =
     (case v of
        JObj obj \<Rightarrow> obj
      | JStr s \<Rightarrow> map (\<lambda>(i, c). (decimal i, JStr [c])) (enumerate 0 s)
      | _ \<Rightarrow> [])"

text \<open>
  \<open>(attributes as any).expires\<close> and its siblings: reading a property of \<open>undefined\<close>
  or \<open>null\<close> throws a \<open>TypeError\<close>; a primitive has none of the properties read here.
\<close>

definition member :: "jsval \<Rightarrow> string \<Rightarrow> error + jsval" where
  "member v k =
     (case v of
        JUndefined \<Rightarrow> Inl (TypeError (''Cannot read property '' @ quoted k @ '' of undefined''))
      | JNull \<Rightarrow> Inl (TypeError (''Cannot read property '' @ quoted k @ '' of null''))
      | JObj obj \<Rightarrow> Inr (get obj k)
      | _ \<Rightarrow> Inr JUndefined)"

definition member_or_undefined :: "jsval \<Rightarrow> string \<Rightarrow> jsval" where
  "member_or_undefined v k = (case member v k of Inl e \<Rightarrow> JUndefined | Inr x \<Rightarrow> x)"

record ParsedKeyVaultEntityIdentifier =
  parsed_vaultUrl :: string
  parsed_name :: string
  parsed_version :: "string option"

definition parsedId_properties :: "ParsedKeyVaultEntityIdentifier \<Rightarrow> jsobj" where
  "parsedId_properties parsedId =
     [(''vaultUrl'', JStr (parsed_vaultUrl parsedId)),
      (''name'', JStr (parsed_name parsedId)),
      (''version'', (case parsed_version parsedId of None \<Rightarrow> JUndefined | Some v \<Rightarrow> JStr v))]"

record KeyVaultSecret =
  secret_value :: jsval
  secret_name :: string
  properties :: jsobj

text \<open>
  \<open>getSecretFromSecretBundle(bundle)\<close>. The identifier parser lives outside the sources
  and is a parameter. The function deletes \<open>attributes\<close> from its argument, so the
  result comes with the argument as the call leaves it. The four conditional deletions
  at the end are only reached with truthy \<open>attributes\<close>.
\<close>

definition delete_if :: "bool \<Rightarrow> string \<Rightarrow> jsobj \<Rightarrow> jsobj" where
  "delete_if b k obj = (if b then AList.delete k obj else obj)"

definition getSecretFromSecretBundle ::
  "(jsval \<Rightarrow> error + ParsedKeyVaultEntityIdentifier) \<Rightarrow> jsobj \<Rightarrow>
   (error + KeyVaultSecret) \<times> jsobj" where
  "getSecretFromSecretBundle parse bundle =
     (case parse (get bundle ''id'') of
        Inl e \<Rightarrow> (Inl e, bundle)
      | Inr parsedId \<Rightarrow>
          let attributes = get bundle ''attributes'';
              secretBundle = AList.delete ''attributes'' bundle
          in (case member attributes ''expires'' of
                Inl e \<Rightarrow> (Inl e, secretBundle)
              | Inr expires \<Rightarrow>
                  let literal = [(''vaultUrl'', JStr (parsed_vaultUrl parsedId)),
                                 (''expiresOn'', expires),
                                 (''createdOn'', member_or_undefined attributes ''created''),
                                 (''updatedOn'', member_or_undefined attributes ''updated'')];
                      merged = spread (spread (spread literal secretBundle)
                                 (parsedId_properties parsedId)) (own_properties attributes);
                      deletedDate = get secretBundle ''deletedDate'';
                      renamed = (if truthy deletedDate
                                 then AList.delete ''deletedDate''
                                        (AList.update ''deletedOn'' deletedDate merged)
                                 else merged);
                      cleaned = (if truthy attributes
                                 then delete_if (truthy (member_or_undefined attributes ''updated'')) ''updated''
                                     (delete_if (truthy (member_or_undefined attributes ''created'')) ''created''
                                     (delete_if (truthy (member_or_undefined attributes ''expires'')) ''expires''
                                     (delete_if (truthy (member_or_undefined attributes ''vaultUrl'')) ''vaultUrl''
                                        renamed)))
                                 else renamed)
                  in (Inr \<lparr>secret_value = get secretBundle ''value'',
                            secret_name = parsed_name parsedId,
                            properties = cleaned\<rparr>, secretBundle)))"

text \<open>
  The properties object before the conditional renaming and deletions, for a bundle whose
  \<open>attributes\<close> is the object \<open>ao\<close>: the literal, then the three spreads.
\<close>

definition merged_properties :: "ParsedKeyVaultEntityIdentifier \<Rightarrow> jsobj \<Rightarrow> jsobj \<Rightarrow> jsobj" where
  "merged_properties parsedId bundle ao =
     spread (spread (spread
       [(''vaultUrl'', JStr (parsed_vaultUrl parsedId)),
        (''expiresOn'', get ao ''expires''),
        (''createdOn'', get ao ''created''),
        (''updatedOn'', get ao ''updated'')]
       (AList.delete ''attributes'' bundle))
       (parsedId_properties parsedId)) ao"

text \<open>
  Modelled from the spec: the function \<open>parseKeyvaultIdentifier\<close> of \<open>./core/utils\<close>
  is not among the sources. The spec expects an identifier of the shape
  \<open>/secrets/{name}[/{version}]\<close> behind the vault URL, for the collection the parser is
  called with, and asks for a decode error on an identifier that does not match it. The
  vault URL is the scheme and the host; for an identifier without version the name is its
  trailing segment.
\<close>

definition parseKeyvaultEntityIdentifier ::
  "string \<Rightarrow> jsval \<Rightarrow> error + ParsedKeyVaultEntityIdentifier" where
  "parseKeyvaultEntityIdentifier collection identifier =
     (case identifier of
        JStr ident \<Rightarrow>
          (case split_on CHR ''/'' ident of
             scheme # slash # host # segment # name # rest \<Rightarrow>
               if slash = [] \<and> segment = collection \<and> length rest \<le> 1
               then Inr \<lparr>parsed_vaultUrl = scheme @ ''//'' @ host,
                         parsed_name = name,
                         parsed_version = (case rest of [] \<Rightarrow> None | v # vs \<Rightarrow> Some v)\<rparr>
               else Inl (Error (''Invalid '' @ collection @ '' identifier: '' @ ident))
           | _ \<Rightarrow> Inl (Error (''Invalid '' @ collection @ '' identifier: '' @ ident)))
      | _ \<Rightarrow> Inl (Error ''Invalid identifier argument''))"

text \<open>
  Modelled from the spec: the declarations of \<open>SecretBundle\<close>, \<open>DeletedSecretBundle\<close>
  and \<open>SecretAttributes\<close> (\<open>./core/models\<close>) are not among the sources. A bundle holds
  a value, an identifier and an attributes object (enabled flag, not-before, expiry,
  created and updated timestamps), and a deleted one a deletion timestamp and a
  scheduled purge date, next to the further members of the service's bundle, which are
  only copied. Every member is optional.
\<close>

datatype jstype = TString | TBoolean | TDate | TObject | TAttributes

definition SecretAttributes_members :: "(string \<times> jstype) list" where
  "SecretAttributes_members =
     [(''enabled'', TBoolean), (''notBefore'', TDate), (''expires'', TDate),
      (''created'', TDate), (''updated'', TDate), (''recoveryLevel'', TString)]"

definition DeletedSecretBundle_members :: "(string \<times> jstype) list" where
  "DeletedSecretBundle_members =
     [(''value'', TString), (''id'', TString), (''contentType'', TString),
      (''attributes'', TAttributes), (''tags'', TObject), (''kid'', TString),
      (''managed'', TBoolean), (''recoveryId'', TString),
      (''scheduledPurgeDate'', TDate), (''deletedDate'', TDate)]"

fun primitive_of_type :: "jstype \<Rightarrow> jsval \<Rightarrow> bool" where
  "primitive_of_type t JUndefined = True"
| "primitive_of_type TString (JStr s) = True"
| "primitive_of_type TBoolean (JBool b) = True"
| "primitive_of_type TDate (JDate d) = True"
| "primitive_of_type TObject (JObj obj) = True"
| "primitive_of_type t v = False"

definition is_SecretAttributes :: "jsval \<Rightarrow> bool" where
  "is_SecretAttributes v =
     (case v of
        JUndefined \<Rightarrow> True
      | JObj obj \<Rightarrow>
          list_all (\<lambda>(k, x). case map_of SecretAttributes_members k of
                                None \<Rightarrow> False
                              | Some t \<Rightarrow> primitive_of_type t x) obj
      | _ \<Rightarrow> False)"

definition is_SecretBundle :: "jsobj \<Rightarrow> bool" where
  "is_SecretBundle bundle =
     list_all (\<lambda>(k, x). case map_of DeletedSecretBundle_members k of
                           None \<Rightarrow> False
                         | Some TAttributes \<Rightarrow> is_SecretAttributes x
                         | Some t \<Rightarrow> primitive_of_type t x) bundle"

text \<open>A property is present when reading it gives something other than \<open>undefined\<close>.\<close>

definition present :: "jsobj \<Rightarrow> string \<Rightarrow> bool" where
  "present obj k = (get obj k \<noteq> JUndefined)"

section \<open>Paginated listing\<close>

record PageSettings =
  continuationToken :: "string option"
  maxPageSize :: "nat option"

text \<open>
  A page response of the service: \<open>value\<close> is an array or missing, \<open>nextLink\<close> a
  string or missing (\<open>null\<close> and \<open>undefined\<close> alike).
\<close>

record 'b PageResponse =
  page_value :: "'b list option"
  nextLink :: "string option"

text \<open>
  The service is the list of what its successive fetches give: a response, or a
  rejection that the \<open>await\<close> throws. A run of a page generator, driven to its end,
  is the list of the fetches it issued and the pages it yielded, in order; how it ended
  (it completed, it threw, or it is still waiting for a response the list does not have);
  and the continuation token it left in the settings object.
\<close>

datatype ('q, 'i) page_event = Fetch 'q | Yield "'i list"

datatype ending = Completed | Thrown error | AwaitingResponse

record ('q, 'i) page_run =
  events :: "('q, 'i) page_event list"
  ending :: ending
  token_left :: "string option"

definition prepend :: "('q, 'i) page_event list \<Rightarrow> ('q, 'i) page_run \<Rightarrow> ('q, 'i) page_run" where
  "prepend es r = r\<lparr>events := es @ events r\<rparr>"

text \<open>\<open>value.map(f)\<close> with a callback that may throw: the first throw ends the map.\<close>

fun map_throwing :: "('b \<Rightarrow> error + 'i) \<Rightarrow> 'b list \<Rightarrow> error + 'i list" where
  "map_throwing f [] = Inr []"
| "map_throwing f (b # bs) =
     (case f b of
        Inl e \<Rightarrow> Inl e
      | Inr i \<Rightarrow> (case map_throwing f bs of Inl e \<Rightarrow> Inl e | Inr rest \<Rightarrow> Inr (i # rest)))"

text \<open>
  The \<open>while (continuationState.continuationToken)\<close> loop shared by the three page
  generators: \<open>shape\<close> is the callback of \<open>map\<close>, \<open>following\<close> builds the request
  for a continuation token.
\<close>

fun page_loop ::
  "('b \<Rightarrow> error + 'i) \<Rightarrow> (string \<Rightarrow> 'q) \<Rightarrow> string option \<Rightarrow>
   (error + 'b PageResponse) list \<Rightarrow> ('q, 'i) page_run" where
  "page_loop shape following None rs =
     \<lparr>events = [], ending = Completed, token_left = None\<rparr>"
| "page_loop shape following (Some t) [] =
     (if t = [] then \<lparr>events = [], ending = Completed, token_left = Some t\<rparr>
      else \<lparr>events = [Fetch (following t)], ending = AwaitingResponse, token_left = Some t\<rparr>)"
| "page_loop shape following (Some t) (Inl e # rs) =
     (if t = [] then \<lparr>events = [], ending = Completed, token_left = Some t\<rparr>
      else \<lparr>events = [Fetch (following t)], ending = Thrown e, token_left = Some t\<rparr>)"
| "page_loop shape following (Some t) (Inr currentSetResponse # rs) =
     (if t = [] then \<lparr>events = [], ending = Completed, token_left = Some t\<rparr>
      else (case page_value currentSetResponse of
              None \<Rightarrow> \<lparr>events = [Fetch (following t)], ending = Completed,
                        token_left = nextLink currentSetResponse\<rparr>
            | Some bundles \<Rightarrow>
                (case map_throwing shape bundles of
                   Inl e \<Rightarrow> \<lparr>events = [Fetch (following t)], ending = Thrown e,
                              token_left = nextLink currentSetResponse\<rparr>
                 | Inr page \<Rightarrow>
                     prepend [Fetch (following t), Yield page]
                       (page_loop shape following (nextLink currentSetResponse) rs))))"

text \<open>
  The body of a page generator: the first fetch when the settings carry no continuation
  token (\<open>== null\<close>), then the loop. \<open>initial\<close> builds the first request from the page
  size.
\<close>

definition page_generator ::
  "('b \<Rightarrow> error + 'i) \<Rightarrow> (nat option \<Rightarrow> 'q) \<Rightarrow> (string \<Rightarrow> 'q) \<Rightarrow> PageSettings \<Rightarrow>
   (error + 'b PageResponse) list \<Rightarrow> ('q, 'i) page_run" where
  "page_generator shape initial following continuationState rs =
     (case continuationToken continuationState of
        Some t \<Rightarrow> page_loop shape following (Some t) rs
      | None \<Rightarrow>
          (case rs of
             [] \<Rightarrow> \<lparr>events = [Fetch (initial (maxPageSize continuationState))],
                     ending = AwaitingResponse, token_left = None\<rparr>
           | Inl e # rest \<Rightarrow>
               \<lparr>events = [Fetch (initial (maxPageSize continuationState))],
                ending = Thrown e, token_left = None\<rparr>
           | Inr currentSetResponse # rest \<Rightarrow>
               (case page_value currentSetResponse of
                  None \<Rightarrow>
                    prepend [Fetch (initial (maxPageSize continuationState))]
                      (page_loop shape following (nextLink currentSetResponse) rest)
                | Some bundles \<Rightarrow>
                    (case map_throwing shape bundles of
                       Inl e \<Rightarrow> \<lparr>events = [Fetch (initial (maxPageSize continuationState))],
                                  ending = Thrown e,
                                  token_left = nextLink currentSetResponse\<rparr>
                     | Inr page \<Rightarrow>
                         prepend [Fetch (initial (maxPageSize continuationState)), Yield page]
                           (page_loop shape following (nextLink currentSetResponse) rest)))))"

text \<open>
  The requests of the three list operations: the operation of the generated client, the
  URL it is sent to (the vault URL first, the continuation token afterwards), the secret
  name for the versions, and \<open>maxresults\<close> on the first request.
\<close>

datatype list_request =
    getSecrets string "nat option"
  | getSecretVersions string string "nat option"
  | getDeletedSecrets string "nat option"

definition shape_properties ::
  "(jsval \<Rightarrow> error + ParsedKeyVaultEntityIdentifier) \<Rightarrow> jsobj \<Rightarrow> error + jsobj" where
  "shape_properties parse bundle =
     (case fst (getSecretFromSecretBundle parse bundle) of
        Inl e \<Rightarrow> Inl e
      | Inr secret \<Rightarrow> Inr (properties secret))"

definition shape_secret ::
  "(jsval \<Rightarrow> error + ParsedKeyVaultEntityIdentifier) \<Rightarrow> jsobj \<Rightarrow> error + KeyVaultSecret" where
  "shape_secret parse bundle = fst (getSecretFromSecretBundle parse bundle)"

definition listPropertiesOfSecretVersionsPage ::
  "(jsval \<Rightarrow> error + ParsedKeyVaultEntityIdentifier) \<Rightarrow> string \<Rightarrow> string \<Rightarrow> PageSettings \<Rightarrow>
   (error + jsobj PageResponse) list \<Rightarrow> (list_request, jsobj) page_run" where
  "listPropertiesOfSecretVersionsPage parse vault secretName continuationState rs =
     page_generator (shape_properties parse)
       (\<lambda>maxresults. getSecretVersions vault secretName maxresults)
       (\<lambda>t. getSecretVersions t secretName None) continuationState rs"

definition listPropertiesOfSecretsPage ::
  "(jsval \<Rightarrow> error + ParsedKeyVaultEntityIdentifier) \<Rightarrow> string \<Rightarrow> PageSettings \<Rightarrow>
   (error + jsobj PageResponse) list \<Rightarrow> (list_request, jsobj) page_run" where
  "listPropertiesOfSecretsPage parse vault continuationState rs =
     page_generator (shape_properties parse)
       (\<lambda>maxresults. getSecrets vault maxresults)
       (\<lambda>t. getSecrets t None) continuationState rs"

definition listDeletedSecretsPage ::
  "(jsval \<Rightarrow> error + ParsedKeyVaultEntityIdentifier) \<Rightarrow> string \<Rightarrow> PageSettings \<Rightarrow>
   (error + jsobj PageResponse) list \<Rightarrow> (list_request, KeyVaultSecret) page_run" where
  "listDeletedSecretsPage parse vault continuationState rs =
     page_generator (shape_secret parse)
       (\<lambda>maxresults. getDeletedSecrets vault maxresults)
       (\<lambda>t. getDeletedSecrets t None) continuationState rs"

text \<open>
  The item-at-a-time generators: they start the page generator on a fresh settings object
  \<open>{}\<close> and yield the items of every page it yields, one by one.
\<close>

datatype ('q, 'i) item_event = ItemFetch 'q | YieldItem 'i

record ('q, 'i) item_run =
  item_events :: "('q, 'i) item_event list"
  item_ending :: ending

fun items_of_event :: "('q, 'i) page_event \<Rightarrow> ('q, 'i) item_event list" where
  "items_of_event (Fetch q) = [ItemFetch q]"
| "items_of_event (Yield page) = map YieldItem page"

definition for_await_items :: "('q, 'i) page_run \<Rightarrow> ('q, 'i) item_run" where
  "for_await_items r =
     \<lparr>item_events = concat (map items_of_event (events r)), item_ending = ending r\<rparr>"

definition fresh_settings :: PageSettings where
  "fresh_settings = \<lparr>continuationToken = None, maxPageSize = None\<rparr>"

definition listPropertiesOfSecretVersionsAll ::
  "(jsval \<Rightarrow> error + ParsedKeyVaultEntityIdentifier) \<Rightarrow> string \<Rightarrow> string \<Rightarrow>
   (error + jsobj PageResponse) list \<Rightarrow> (list_request, jsobj) item_run" where
  "listPropertiesOfSecretVersionsAll parse vault secretName rs =
     for_await_items (listPropertiesOfSecretVersionsPage parse vault secretName fresh_settings rs)"

definition listPropertiesOfSecretsAll ::
  "(jsval \<Rightarrow> error + ParsedKeyVaultEntityIdentifier) \<Rightarrow> string \<Rightarrow>
   (error + jsobj PageResponse) list \<Rightarrow> (list_request, jsobj) item_run" where
  "listPropertiesOfSecretsAll parse vault rs =
     for_await_items (listPropertiesOfSecretsPage parse vault fresh_settings rs)"

definition listDeletedSecretsAll ::
  "(jsval \<Rightarrow> error + ParsedKeyVaultEntityIdentifier) \<Rightarrow> string \<Rightarrow>
   (error + jsobj PageResponse) list \<Rightarrow> (list_request, KeyVaultSecret) item_run" where
  "listDeletedSecretsAll parse vault rs =
     for_await_items (listDeletedSecretsPage parse vault fresh_settings rs)"

text \<open>What a consumer sees: the pages of a page run, the items of an item run.\<close>

fun pages_yielded :: "('q, 'i) page_event list \<Rightarrow> 'i list list" where
  "pages_yielded [] = []"
| "pages_yielded (Fetch q # es) = pages_yielded es"
| "pages_yielded (Yield page # es) = page # pages_yielded es"

fun items_yielded :: "('q, 'i) item_event list \<Rightarrow> 'i list" where
  "items_yielded [] = []"
| "items_yielded (ItemFetch q # es) = items_yielded es"
| "items_yielded (YieldItem i # es) = i # items_yielded es"

fun fetches_issued :: "('q, 'i) page_event list \<Rightarrow> 'q list" where
  "fetches_issued [] = []"
| "fetches_issued (Fetch q # es) = q # fetches_issued es"
| "fetches_issued (Yield page # es) = fetches_issued es"

text \<open>
  When a page sequence ends, in the words of the pagination contract as the code has it:
  a response ends the sequence when it carries no next-link (a missing or an empty one),
  or when it is not the first response and has no \<open>value\<close> array. \<open>first_ending\<close>
  is the position of the first response that does; \<open>pages_of\<close> lists the shaped
  \<open>value\<close> arrays of the responses that have one.
\<close>

definition ends_sequence :: "bool \<Rightarrow> 'b PageResponse \<Rightarrow> bool" where
  "ends_sequence is_first r =
     (\<not> truthy_string (nextLink r) \<or> (\<not> is_first \<and> page_value r = None))"

fun first_ending :: "bool \<Rightarrow> 'b PageResponse list \<Rightarrow> nat option" where
  "first_ending is_first [] = None"
| "first_ending is_first (r # rs) =
     (if ends_sequence is_first r then Some 0
      else map_option Suc (first_ending False rs))"

fun pages_of :: "('b \<Rightarrow> error + 'i) \<Rightarrow> 'b PageResponse list \<Rightarrow> 'i list list" where
  "pages_of shape [] = []"
| "pages_of shape (r # rs) =
     (case page_value r of
        None \<Rightarrow> pages_of shape rs
      | Some bundles \<Rightarrow>
          (case map_throwing shape bundles of
             Inl e \<Rightarrow> pages_of shape rs
           | Inr page \<Rightarrow> page # pages_of shape rs))"

definition shapes_well :: "('b \<Rightarrow> error + 'i) \<Rightarrow> 'b PageResponse \<Rightarrow> bool" where
  "shapes_well shape r =
     (case page_value r of
        None \<Rightarrow> True
      | Some bundles \<Rightarrow> (case map_throwing shape bundles of Inl e \<Rightarrow> False | Inr page \<Rightarrow> True))"

text \<open>
  A run over the responses \<open>rs\<close> ends as the contract says when it completes at the
  first response that ends the sequence, has fetched exactly the responses up to that one,
  and has yielded the \<open>value\<close> arrays of all of them, the last one included; with no
  such response, every response has been fetched and handled and the generator waits for
  one more.
\<close>

definition ends_as_contracted ::
  "bool \<Rightarrow> ('b \<Rightarrow> error + 'i) \<Rightarrow> 'b PageResponse list \<Rightarrow> ('q, 'i) page_run \<Rightarrow> bool" where
  "ends_as_contracted is_first shape rs run =
     (case first_ending is_first rs of
        None \<Rightarrow>
          ending run = AwaitingResponse
          \<and> length (fetches_issued (events run)) = Suc (length rs)
          \<and> pages_yielded (events run) = pages_of shape rs
      | Some n \<Rightarrow>
          ending run = Completed
          \<and> length (fetches_issued (events run)) = Suc n
          \<and> pages_yielded (events run) = pages_of shape (take (Suc n) rs))"

text \<open>
  A run from given settings: resumed from an empty continuation token it fetches nothing
  and completes at once; otherwise it ends as contracted, and the run has a first response
  only when it starts without a continuation token.
\<close>

definition run_as_contracted ::
  "PageSettings \<Rightarrow> ('b \<Rightarrow> error + 'i) \<Rightarrow> 'b PageResponse list \<Rightarrow> ('q, 'i) page_run \<Rightarrow> bool" where
  "run_as_contracted st shape rs run =
     (if continuationToken st = Some []
      then run = \<lparr>events = [], ending = Completed, token_left = Some []\<rparr>
      else ends_as_contracted (continuationToken st = None) shape rs run)"

section \<open>Pollers for deleting and recovering a secret\<close>

text \<open>
  Modelled from the spec: the classes \<open>DeleteSecretPoller\<close> and
  \<open>RecoverDeletedSecretPoller\<close> (\<open>./lro/delete/poller\<close>, \<open>./lro/recover/poller\<close>)
  are not among the sources. The spec gives the states \<open>NotStarted\<close>, \<open>InProgress\<close>,
  \<open>Succeeded\<close> and \<open>Failed\<close>. A poll makes at most one round trip. From
  \<open>NotStarted\<close> it issues the delete (or recover) request. From \<open>InProgress\<close> it
  probes the deleted secret (or the live secret): found means \<open>Succeeded\<close>, not found
  means still in progress and is no error, any other error means \<open>Failed\<close>. Errors other
  than the probe's not-found reach the caller. In a terminal state nothing is polled.
\<close>

datatype PollerStatus = NotStarted | InProgress | Succeeded | Failed

datatype poller_kind = DeleteSecretPoller | RecoverDeletedSecretPoller

record PollOperationState =
  kind :: poller_kind
  resourceName :: string
  status :: PollerStatus

text \<open>The four capabilities of \<open>pollerClient\<close>, as requests on a secret name.\<close>

datatype secret_request =
    recoverDeletedSecret string
  | getSecret string
  | deleteSecret string
  | getDeletedSecret string

text \<open>What the service answers to the one request of a poll.\<close>

datatype reply = Answered | NotFound | Rejected error

record poll_outcome =
  poller :: PollOperationState
  requests :: "secret_request list"
  raised :: "error option"

definition operation_request :: "PollOperationState \<Rightarrow> secret_request" where
  "operation_request st =
     (case kind st of
        DeleteSecretPoller \<Rightarrow> deleteSecret (resourceName st)
      | RecoverDeletedSecretPoller \<Rightarrow> recoverDeletedSecret (resourceName st))"

definition probe_request :: "PollOperationState \<Rightarrow> secret_request" where
  "probe_request st =
     (case kind st of
        DeleteSecretPoller \<Rightarrow> getDeletedSecret (resourceName st)
      | RecoverDeletedSecretPoller \<Rightarrow> getSecret (resourceName st))"

definition not_found_error :: error where
  "not_found_error = Error ''SecretNotFound''"

definition poll :: "reply \<Rightarrow> PollOperationState \<Rightarrow> poll_outcome" where
  "poll r st =
     (case status st of
        NotStarted \<Rightarrow>
          (case r of
             Answered \<Rightarrow> \<lparr>poller = st\<lparr>status := InProgress\<rparr>,
                           requests = [operation_request st], raised = None\<rparr>
           | NotFound \<Rightarrow> \<lparr>poller = st, requests = [operation_request st],
                           raised = Some not_found_error\<rparr>
           | Rejected e \<Rightarrow> \<lparr>poller = st, requests = [operation_request st],
                             raised = Some e\<rparr>)
      | InProgress \<Rightarrow>
          (case r of
             Answered \<Rightarrow> \<lparr>poller = st\<lparr>status := Succeeded\<rparr>,
                           requests = [probe_request st], raised = None\<rparr>
           | NotFound \<Rightarrow> \<lparr>poller = st, requests = [probe_request st], raised = None\<rparr>
           | Rejected e \<Rightarrow> \<lparr>poller = st\<lparr>status := Failed\<rparr>,
                             requests = [probe_request st], raised = Some e\<rparr>)
      | Succeeded \<Rightarrow> \<lparr>poller = st, requests = [], raised = None\<rparr>
      | Failed \<Rightarrow> \<lparr>poller = st, requests = [], raised = None\<rparr>)"

text \<open>
  \<open>beginDeleteSecret\<close> and \<open>beginRecoverDeletedSecret\<close> of the client: a poller is
  built for the name, from the serialized state in \<open>resumeFrom\<close> when there is one, and
  polled once.
\<close>

definition new_poller :: "poller_kind \<Rightarrow> string \<Rightarrow> PollOperationState option \<Rightarrow> PollOperationState" where
  "new_poller k name resumeFrom =
     (case resumeFrom of
        None \<Rightarrow> \<lparr>kind = k, resourceName = name, status = NotStarted\<rparr>
      | Some st \<Rightarrow> st\<lparr>kind := k, resourceName := name\<rparr>)"

definition beginDeleteSecret :: "string \<Rightarrow> PollOperationState option \<Rightarrow> reply \<Rightarrow> poll_outcome" where
  "beginDeleteSecret name resumeFrom r = poll r (new_poller DeleteSecretPoller name resumeFrom)"

definition beginRecoverDeletedSecret ::
  "string \<Rightarrow> PollOperationState option \<Rightarrow> reply \<Rightarrow> poll_outcome" where
  "beginRecoverDeletedSecret name resumeFrom r =
     poll r (new_poller RecoverDeletedSecretPoller name resumeFrom)"

text \<open>
  The caller polling again and again, one reply of the service per poll: the state
  reached and the requests issued on the way.
\<close>

fun poll_many :: "reply list \<Rightarrow> PollOperationState \<Rightarrow> PollOperationState \<times> secret_request list" where
  "poll_many [] st = (st, [])"
| "poll_many (r # rs) st =
     (let out = poll r st; (st', qs) = poll_many rs (poller out)
      in (st', requests out @ qs))"

fun terminal :: "PollerStatus \<Rightarrow> bool" where
  "terminal Succeeded = True"
| "terminal Failed = True"
| "terminal s = False"

fun step_number :: "PollerStatus \<Rightarrow> nat" where
  "step_number NotStarted = 0"
| "step_number InProgress = 1"
| "step_number Succeeded = 2"
| "step_number Failed = 2"

section \<open>Sample values\<close>

text \<open>Concrete collaborators and inputs on which the definitions are evaluated.\<close>

definition sample_parse :: "jsval \<Rightarrow> error + ParsedKeyVaultEntityIdentifier" where
  "sample_parse = parseKeyvaultEntityIdentifier ''secrets''"

definition sample_vault :: string where
  "sample_vault = ''https://myvault.vault.azure.net''"

definition sample_next :: string where
  "sample_next = ''https://myvault.vault.azure.net/secrets?api-version=7.0&$skiptoken=abc''"

definition sample_next2 :: string where
  "sample_next2 = ''https://myvault.vault.azure.net/secrets?api-version=7.0&$skiptoken=def''"

definition sample_bundle :: jsobj where
  "sample_bundle =
     [(''value'', JStr ''s3cret''),
      (''id'', JStr ''https://myvault.vault.azure.net/secrets/A''),
      (''attributes'', JObj [(''enabled'', JBool True), (''expires'', JDate 1700000000),
                             (''created'', JDate 1600000000)]),
      (''deletedDate'', JDate 1650000000)]"

definition sample_secret :: KeyVaultSecret where
  "sample_secret =
     \<lparr>secret_value = JStr ''s3cret'', secret_name = ''A'',
      properties =
        [(''vaultUrl'', JStr ''https://myvault.vault.azure.net''),
         (''expiresOn'', JDate 1700000000), (''createdOn'', JDate 1600000000),
         (''updatedOn'', JUndefined),
         (''id'', JStr ''https://myvault.vault.azure.net/secrets/A''),
         (''value'', JStr ''s3cret''), (''version'', JUndefined),
         (''name'', JStr ''A''), (''enabled'', JBool True),
         (''deletedOn'', JDate 1650000000)]\<rparr>"

definition sample_responses :: "jsobj PageResponse list" where
  "sample_responses =
     [\<lparr>page_value = Some [sample_bundle], nextLink = Some sample_next\<rparr>,
      \<lparr>page_value = None, nextLink = Some sample_next2\<rparr>,
      \<lparr>page_value = Some [sample_bundle], nextLink = None\<rparr>]"

text \<open>
  The page of the specification's example, two bundles whose identifiers end in
  \<open>/deletedsecrets/A\<close> and \<open>/deletedsecrets/B\<close>, each with an \<open>attributes\<close>
  object; and the same page with identifiers of the collection \<open>secrets\<close>.
\<close>

definition deleted_example_with_attributes :: "jsobj PageResponse" where
  "deleted_example_with_attributes =
     \<lparr>page_value = Some [ [(''id'', JStr ''https://myvault.vault.azure.net/deletedsecrets/A''),
                          (''attributes'', JObj [(''enabled'', JBool True)])],
                         [(''id'', JStr ''https://myvault.vault.azure.net/deletedsecrets/B''),
                          (''attributes'', JObj [(''enabled'', JBool True)])] ],
      nextLink = None\<rparr>"

definition sample_deleted_A :: jsobj where
  "sample_deleted_A =
     [(''id'', JStr (''https:'' @ ''//'' @ ''myvault.vault.azure.net'' @ ''/secrets/A'')),
      (''attributes'', JObj [(''enabled'', JBool True)]),
      (''deletedDate'', JDate 1650000000)]"

definition sample_deleted_B :: jsobj where
  "sample_deleted_B =
     [(''id'', JStr (''https:'' @ ''//'' @ ''myvault.vault.azure.net'' @ ''/secrets/B'')),
      (''attributes'', JObj [(''enabled'', JBool True)]),
      (''deletedDate'', JDate 1650000001)]"

text \<open>A pipeline builder that never throws, and options that carry nothing.\<close>

definition sample_createPipeline :: "PipelineOptions \<Rightarrow> string AuthPolicy \<Rightarrow> error + PipelineOptions" where
  "sample_createPipeline options authPolicy = Inr options"

definition sample_isTokenCredential :: "string option \<Rightarrow> bool" where
  "sample_isTokenCredential cred = (cred \<noteq> None)"

definition sample_env :: "(string, PipelineOptions) SecretClientEnv" where
  "sample_env =
     \<lparr>SDK_VERSION = ''4.0.0'', isTokenCredential = sample_isTokenCredential,
      createPipelineFromOptions = sample_createPipeline\<rparr>"

definition sample_options :: PipelineOptions where
  "sample_options = \<lparr>userAgentOptions = None, loggingOptions = None\<rparr>"

definition sample_poller :: PollOperationState where
  "sample_poller =
     \<lparr>kind = DeleteSecretPoller, resourceName = ''MySecretName'', status = Succeeded\<rparr>"

section \<open>Properties of the api-version policy\<close>

lemma split_on_none: "c \<notin> set s \<Longrightarrow> split_on c s = [s]"
  by (induction s) auto

lemma split_on_append: "c \<notin> set a \<Longrightarrow> split_on c (a @ c # b) = a # split_on c b"
  by (induction a) auto

lemma split_on_join:
  "\<forall>x\<in>set xs. c \<notin> set x \<Longrightarrow> xs \<noteq> [] \<Longrightarrow> split_on c (join [c] xs) = xs"
proof (induction xs)
  case Nil
  then show ?case by simp
next
  case (Cons x xs)
  show ?case
  proof (cases xs)
    case Nil
    with Cons.prems show ?thesis by (simp add: split_on_none)
  next
    case (Cons y ys)
    with Cons.prems Cons.IH show ?thesis by (simp add: split_on_append)
  qed
qed

lemma set_join_subset: "set (join sep xs) \<subseteq> set sep \<union> \<Union> (set ` set xs)"
  by (induction sep xs rule: join.induct) auto

lemma getSubstitution_plain: "CHR ''$'' \<notin> set r \<Longrightarrow> getSubstitution m b a r = r"
  by (induction m b a r rule: getSubstitution.induct) auto

lemma starts_with_append: "starts_with p (p @ t)"
  by (induction p) auto

lemma str_includes_prefix: "str_includes sub (sub @ t)"
proof (cases "sub @ t")
  case Nil
  then show ?thesis by simp
next
  case (Cons x xs)
  have "starts_with sub (sub @ t)" by (rule starts_with_append)
  with Cons show ?thesis by simp
qed

lemma replace_after_eq_scan:
  "CHR ''='' \<notin> set k \<Longrightarrow> \<not> list_ex line_terminator old \<Longrightarrow> s = [] \<or> last s \<noteq> CHR ''='' \<Longrightarrow>
   replace_after_eq s (k @ CHR ''='' # old) v = s @ k @ ''='' @ getSubstitution old (s @ k @ ''='') [] v"
proof (induction k arbitrary: s)
  case Nil
  then show ?case by (cases old) auto
next
  case (Cons a k)
  from Cons.prems have "replace_after_eq s ((a # k) @ CHR ''='' # old) v = replace_after_eq (s @ [a]) (k @ CHR ''='' # old) v"
    by auto
  also have "\<dots> = (s @ [a]) @ k @ ''='' @ getSubstitution old ((s @ [a]) @ k @ ''='') [] v"
    using Cons.prems by (intro Cons.IH) auto
  finally show ?case by simp
qed

lemma workloads_item_api_version:
  assumes "CHR ''$'' \<notin> set v" "\<not> list_ex line_terminator old"
  shows "workloads_item v (''api-version='' @ old) = ''api-version='' @ v"
proof -
  have inc: "str_includes ''api-version'' (''api-version'' @ (CHR ''='' # old))"
    by (rule str_includes_prefix)
  have "replace_after_eq [] (''api-version'' @ CHR ''='' # old) v
        = [] @ ''api-version'' @ ''='' @ getSubstitution old ([] @ ''api-version'' @ ''='') [] v"
    using assms(2) by (intro replace_after_eq_scan) auto
  then show ?thesis
    using inc assms(1) by (simp add: workloads_item_def getSubstitution_plain)
qed

lemma paloalto_item_api_version:
  "paloalto_item v (''api-version='' @ old) = ''api-version='' @ v"
proof -
  have "str_includes ''api-version'' (''api-version'' @ (CHR ''='' # old))"
    by (rule str_includes_prefix)
  then show ?thesis by (simp add: paloalto_item_def)
qed

lemma rewrite_url_query:
  assumes "CHR ''?'' \<notin> set base" "\<forall>it\<in>set items. CHR ''?'' \<notin> set it \<and> CHR ''&'' \<notin> set it" "items \<noteq> []"
  shows "rewrite_url f (base @ ''?'' @ join ''&'' items) = base @ ''?'' @ join ''&'' (map f items)"
proof -
  have q: "CHR ''?'' \<notin> set (join ''&'' items)"
    using set_join_subset [of "''&''" items] assms(2) by auto
  have "split_on CHR ''?'' (base @ CHR ''?'' # join ''&'' items) = base # split_on CHR ''?'' (join ''&'' items)"
    using assms(1) by (rule split_on_append)
  also have "\<dots> = [base, join ''&'' items]" using q by (simp add: split_on_none)
  finally have sp: "split_on CHR ''?'' (base @ ''?'' @ join ''&'' items) = [base, join ''&'' items]"
    by simp
  have "split_on CHR ''&'' (join [CHR ''&''] items) = items"
    using assms(2,3) by (intro split_on_join) auto
  with sp show ?thesis by (simp add: rewrite_url_def)
qed

text \<open>
  On a request URL with exactly one question mark, whose query items hold no further
  \<open>?\<close> or \<open>&\<close>, the policy of a client built with a non-empty \<open>apiVersion\<close>
  option forwards the request with every item \<open>api-version=old\<close> rewritten to
  \<open>api-version=\<close> followed by the configured version. The Workloads client rewrites by
  a regular-expression replacement, which asks for an old value free of line terminators
  and a version free of \<open>$\<close>; the Palo Alto client replaces the whole item.
\<close>

lemma workloads_single_query_rewritten:
  assumes "apiVersion \<noteq> []" and "CHR ''$'' \<notin> set apiVersion"
    and "CHR ''?'' \<notin> set base"
    and "\<forall>it\<in>set (items_before @ [''api-version='' @ old] @ items_after).
           CHR ''?'' \<notin> set it \<and> CHR ''&'' \<notin> set it"
    and "\<not> list_ex line_terminator old"
  shows "sendRequest (last (workloads_addCustomApiVersionPolicy (Some apiVersion) pl))
           (request\<lparr>url := base @ ''?'' @ join ''&'' (items_before @ [''api-version='' @ old] @ items_after)\<rparr>) next
         = next (request\<lparr>url := base @ ''?'' @ join ''&''
                    (map (workloads_item apiVersion) items_before @ [''api-version='' @ apiVersion]
                     @ map (workloads_item apiVersion) items_after)\<rparr>)"
proof -
  let ?items = "items_before @ [''api-version='' @ old] @ items_after"
  have ne: "?items \<noteq> []" by simp
  have w: "rewrite_url (workloads_item apiVersion) (base @ ''?'' @ join ''&'' ?items)
           = base @ ''?'' @ join ''&'' (map (workloads_item apiVersion) ?items)"
    using assms(3,4) ne by (rule rewrite_url_query)
  have wi: "workloads_item apiVersion (''api-version='' @ old) = ''api-version='' @ apiVersion"
    using assms(2,5) by (rule workloads_item_api_version)
  show ?thesis
    using assms(1) w wi
    by (simp add: workloads_addCustomApiVersionPolicy_def addPolicy_def workloads_sendRequest_def)
qed

lemma paloalto_single_query_rewritten:
  assumes "apiVersion \<noteq> []"
    and "CHR ''?'' \<notin> set base"
    and "\<forall>it\<in>set (items_before @ [''api-version='' @ old] @ items_after).
           CHR ''?'' \<notin> set it \<and> CHR ''&'' \<notin> set it"
  shows "sendRequest (last (paloalto_addCustomApiVersionPolicy (Some apiVersion) pl))
           (request\<lparr>url := base @ ''?'' @ join ''&'' (items_before @ [''api-version='' @ old] @ items_after)\<rparr>) next
         = next (request\<lparr>url := base @ ''?'' @ join ''&''
                    (map (paloalto_item apiVersion) items_before @ [''api-version='' @ apiVersion]
                     @ map (paloalto_item apiVersion) items_after)\<rparr>)"
proof -
  let ?items = "items_before @ [''api-version='' @ old] @ items_after"
  have ne: "?items \<noteq> []" by simp
  have p: "rewrite_url (paloalto_item apiVersion) (base @ ''?'' @ join ''&'' ?items)
           = base @ ''?'' @ join ''&'' (map (paloalto_item apiVersion) ?items)"
    using assms(2,3) ne by (rule rewrite_url_query)
  have pi: "paloalto_item apiVersion (''api-version='' @ old) = ''api-version='' @ apiVersion"
    by (rule paloalto_item_api_version)
  show ?thesis
    using assms(1) p pi
    by (simp add: paloalto_addCustomApiVersionPolicy_def addPolicy_def paloalto_sendRequest_def)
qed

text \<open>The two lemmas at the URL of the specification's example.\<close>

lemma single_query_rewritten_example:
  "sendRequest (last (workloads_addCustomApiVersionPolicy (Some ''2021-12-01-preview'') []))
     \<lparr>url = ''https://management.azure.com/subscriptions/s1/providers/Microsoft.Workloads/monitors?api-version=2020-01-01''\<rparr> url
   = ''https://management.azure.com/subscriptions/s1/providers/Microsoft.Workloads/monitors?api-version=2021-12-01-preview''
   \<and> sendRequest (last (paloalto_addCustomApiVersionPolicy (Some ''2021-12-01-preview'') []))
     \<lparr>url = ''https://management.azure.com/subscriptions/s1/providers/Microsoft.Workloads/monitors?api-version=2020-01-01''\<rparr> url
   = ''https://management.azure.com/subscriptions/s1/providers/Microsoft.Workloads/monitors?api-version=2021-12-01-preview''"
  using workloads_single_query_rewritten [where apiVersion = "''2021-12-01-preview''"
      and base = "''https://management.azure.com/subscriptions/s1/providers/Microsoft.Workloads/monitors''"
      and items_before = "[]" and old = "''2020-01-01''" and items_after = "[]" and pl = "[]"
      and request = "\<lparr>url = []\<rparr>" and ?next = url]
    paloalto_single_query_rewritten [where apiVersion = "''2021-12-01-preview''"
      and base = "''https://management.azure.com/subscriptions/s1/providers/Microsoft.Workloads/monitors''"
      and items_before = "[]" and old = "''2020-01-01''" and items_after = "[]" and pl = "[]"
      and request = "\<lparr>url = []\<rparr>" and ?next = url]
  by (simp add: line_terminator_def)

text \<open>
  Claim C1: for every request, the policy rewrites the \<open>api-version\<close> query parameter of
  the URL to the configured version before the request is forwarded. The code does not
  on a URL whose query string holds a question mark: both clients split the URL at every
  \<open>?\<close> and put only the first two pieces together again, so the \<open>api-version\<close>
  item is lost and the request is forwarded without any version.
\<close>

theorem api_version_dropped:
  "sendRequest (last (workloads_addCustomApiVersionPolicy (Some ''2021-12-01-preview'') []))
     \<lparr>url = ''https://management.azure.com/subscriptions/s1?tag=a?b&api-version=2020-01-01''\<rparr> url
   = ''https://management.azure.com/subscriptions/s1?tag=a''
   \<and> sendRequest (last (paloalto_addCustomApiVersionPolicy (Some ''2021-12-01-preview'') []))
     \<lparr>url = ''https://management.azure.com/subscriptions/s1?tag=a?b&api-version=2020-01-01''\<rparr> url
   = ''https://management.azure.com/subscriptions/s1?tag=a''"
  by (simp add: workloads_addCustomApiVersionPolicy_def paloalto_addCustomApiVersionPolicy_def
        addPolicy_def workloads_sendRequest_def paloalto_sendRequest_def rewrite_url_def
        workloads_item_def paloalto_item_def)

section \<open>Properties of the constructors\<close>

text \<open>
  Claim C8, as the code has it. Every constructor throws, synchronously, when the required
  credential is missing: \<open>WorkloadsClient\<close> and \<open>PaloAltoNetworksCloudngfw\<close> as
  their first statement, \<open>SecretClient\<close> through the constructor of the generated
  client at the latest. \<open>WorkloadsClient\<close> throws as well when the subscription id is
  missing. \<open>SecretClient\<close> does not check the vault URL: given a credential and no vault
  URL, and a pipeline that builds, it returns a client whose vault URL is \<open>undefined\<close>.
\<close>

theorem constructors_validation:
  "WorkloadsClient lib None subscriptionId options
     = Inl (Error (quoted ''credentials'' @ '' cannot be null''))
   \<and> WorkloadsClient lib (Some c) None options
     = Inl (Error (quoted ''subscriptionId'' @ '' cannot be null''))
   \<and> PaloAltoNetworksCloudngfw lib None second options
     = Inl (Error (quoted ''credentials'' @ '' cannot be null''))
   \<and> isl (fst (new_SecretClient env u None pipelineOptions))
   \<and> (createPipelineFromOptions env
         (internalPipelineOptions (set_userAgentOptions (SDK_VERSION env) pipelineOptions))
         (authPolicy_of env (Some c)) = Inr pl \<longrightarrow>
       fst (new_SecretClient env None (Some c) pipelineOptions)
         = Inr \<lparr>vaultUrl = None, credential = Some c, pipeline = pl,
                client = \<lparr>kv_credentials = c, kv_apiVersion = SERVICE_API_VERSION,
                          kv_pipeline = pl\<rparr>\<rparr>)"
proof -
  have "isl (fst (new_SecretClient env u None pipelineOptions))"
    by (simp add: new_SecretClient_def new_KeyVaultClient_def Let_def split: sum.splits)
  moreover have "fst (new_SecretClient env None (Some c) pipelineOptions)
         = Inr \<lparr>vaultUrl = None, credential = Some c, pipeline = pl,
                client = \<lparr>kv_credentials = c, kv_apiVersion = SERVICE_API_VERSION,
                          kv_pipeline = pl\<rparr>\<rparr>"
    if "createPipelineFromOptions env
         (internalPipelineOptions (set_userAgentOptions (SDK_VERSION env) pipelineOptions))
         (authPolicy_of env (Some c)) = Inr pl"
    using that by (simp add: new_SecretClient_def new_KeyVaultClient_def Let_def)
  ultimately show ?thesis
    by (simp add: WorkloadsClient_def PaloAltoNetworksCloudngfw_def)
qed

text \<open>The theorem at a pipeline builder that returns the options it is given.\<close>

theorem constructors_validation_witness:
  "createPipelineFromOptions sample_env
     (internalPipelineOptions (set_userAgentOptions (SDK_VERSION sample_env) sample_options))
     (authPolicy_of sample_env (Some ''credential''))
     = Inr (internalPipelineOptions (set_userAgentOptions ''4.0.0'' sample_options))
   \<and> map_sum id vaultUrl (fst (new_SecretClient sample_env None (Some ''credential'') sample_options))
     = Inr None
   \<and> isl (fst (new_SecretClient sample_env (Some sample_vault) None sample_options))"
proof -
  have b: "createPipelineFromOptions sample_env
     (internalPipelineOptions (set_userAgentOptions (SDK_VERSION sample_env) sample_options))
     (authPolicy_of sample_env (Some ''credential''))
     = Inr (internalPipelineOptions (set_userAgentOptions ''4.0.0'' sample_options))"
    by (simp add: sample_env_def sample_createPipeline_def)
  from constructors_validation [where env = sample_env and c = "''credential''"
      and pipelineOptions = sample_options and u = "Some sample_vault"
      and pl = "internalPipelineOptions (set_userAgentOptions ''4.0.0'' sample_options)",
      THEN conjunct2, THEN conjunct2, THEN conjunct2] b
  show ?thesis by simp
qed

text \<open>
  Claim C8 as stated fails for \<open>SecretClient\<close>: constructed with a credential and no
  vault URL, it does not throw but returns a client whose vault URL is \<open>undefined\<close>.
\<close>

theorem missing_vaultUrl_counterexample:
  "map_sum id vaultUrl
     (fst (new_SecretClient sample_env None (Some ''credential'') sample_options)) = Inr None"
  by (simp add: new_SecretClient_def new_KeyVaultClient_def Let_def sample_env_def
      sample_createPipeline_def)

text \<open>
  Claim C10. With \<open>userAgentOptions\<close> supplied, the constructor leaves the caller's
  options as they are and hands the same \<open>userAgentOptions\<close> on to the pipeline; only
  without it does it install a prefix made of the library name and version.
\<close>

theorem userAgentOptions_kept:
  "snd (new_SecretClient env u cred (pipelineOptions\<lparr>userAgentOptions := Some ua\<rparr>))
     = pipelineOptions\<lparr>userAgentOptions := Some ua\<rparr>
   \<and> userAgentOptions (internalPipelineOptions
        (snd (new_SecretClient env u cred (pipelineOptions\<lparr>userAgentOptions := Some ua\<rparr>))))
     = Some ua
   \<and> snd (new_SecretClient env u cred (pipelineOptions\<lparr>userAgentOptions := None\<rparr>))
     = pipelineOptions\<lparr>userAgentOptions :=
         Some \<lparr>userAgentPrefix = Some (''azsdk-js-keyvault-secrets/'' @ SDK_VERSION env)\<rparr>\<rparr>"
  by (simp add: new_SecretClient_def Let_def set_userAgentOptions_def libInfo_def
      internalPipelineOptions_def split: sum.splits)

section \<open>Properties of the result shaping\<close>

lemma get_update: "get (AList.update k v obj) k' = (if k' = k then v else get obj k')"
  by (simp add: get_def update_conv')

lemma get_delete: "get (AList.delete k obj) k' = (if k' = k then JUndefined else get obj k')"
  by (simp add: get_def delete_conv')

lemma get_delete_if:
  "get (delete_if b k obj) k' = (if b \<and> k' = k then JUndefined else get obj k')"
  by (simp add: delete_if_def get_delete)

lemma map_of_spread: "map_of (spread target source) = map_of target ++ map_of source"
  unfolding spread_def
  by (induction source) (auto simp: update_conv' fun_eq_iff map_add_def)

lemma get_spread:
  "get (spread target source) k = (case map_of source k of None \<Rightarrow> get target k | Some v \<Rightarrow> v)"
  by (simp add: get_def map_of_spread map_add_def split: option.splits)

text \<open>
  Claim C5, as the code has it. The call removes \<open>attributes\<close> from its argument as
  soon as the identifier has been parsed, and changes nothing else of it: every other
  property reads after the call as before.
\<close>

theorem bundle_after_call:
  "snd (getSecretFromSecretBundle parse bundle)
     = (case parse (get bundle ''id'') of
          Inl e \<Rightarrow> bundle
        | Inr parsedId \<Rightarrow> AList.delete ''attributes'' bundle)
   \<and> (\<forall>k. k \<noteq> ''attributes'' \<longrightarrow>
          get (snd (getSecretFromSecretBundle parse bundle)) k = get bundle k)"
proof -
  have eq: "snd (getSecretFromSecretBundle parse bundle)
     = (case parse (get bundle ''id'') of
          Inl e \<Rightarrow> bundle
        | Inr parsedId \<Rightarrow> AList.delete ''attributes'' bundle)"
    by (simp add: getSecretFromSecretBundle_def Let_def split: sum.splits)
  have "get (snd (getSecretFromSecretBundle parse bundle)) k = get bundle k"
    if "k \<noteq> ''attributes''" for k
    using that unfolding eq by (cases "parse (get bundle ''id'')") (simp_all add: get_delete)
  with eq show ?thesis by blast
qed

theorem bundle_after_call_witness:
  "snd (getSecretFromSecretBundle sample_parse sample_bundle)
     = [(''value'', JStr ''s3cret''),
        (''id'', JStr ''https://myvault.vault.azure.net/secrets/A''),
        (''deletedDate'', JDate 1650000000)]
   \<and> get (snd (getSecretFromSecretBundle sample_parse sample_bundle)) ''value''
     = JStr ''s3cret''"
proof -
  have p: "sample_parse (get sample_bundle ''id'')
     = Inr \<lparr>parsed_vaultUrl = ''https://myvault.vault.azure.net'', parsed_name = ''A'',
            parsed_version = None\<rparr>"
    by (simp add: sample_parse_def sample_bundle_def parseKeyvaultEntityIdentifier_def get_def)
  have "''value'' \<noteq> ''attributes''" by simp
  then show ?thesis
    using bundle_after_call [of sample_parse sample_bundle] p
    by (simp add: sample_bundle_def get_def)
qed

text \<open>
  Claim C5 as stated fails: a bundle that has \<open>attributes\<close> before the call has none
  after it.
\<close>

theorem attributes_deleted_counterexample:
  "get sample_bundle ''attributes''
     = JObj [(''enabled'', JBool True), (''expires'', JDate 1700000000),
             (''created'', JDate 1600000000)]
   \<and> get (snd (getSecretFromSecretBundle sample_parse sample_bundle)) ''attributes''
     = JUndefined"
  by (simp add: sample_parse_def sample_bundle_def parseKeyvaultEntityIdentifier_def get_def
      getSecretFromSecretBundle_def member_def Let_def)


lemma bundle_member_typed:
  assumes "is_SecretBundle bundle" "map_of bundle k = Some v"
  shows "case map_of DeletedSecretBundle_members k of
           None \<Rightarrow> False
         | Some TAttributes \<Rightarrow> is_SecretAttributes v
         | Some t \<Rightarrow> primitive_of_type t v"
proof -
  from assms(2) have "(k, v) \<in> set bundle" by (rule map_of_SomeD)
  with assms(1) show ?thesis
    unfolding is_SecretBundle_def list_all_iff by fastforce
qed

lemma attributes_member_typed:
  assumes "is_SecretAttributes (JObj ao)" "map_of ao k = Some v"
  shows "case map_of SecretAttributes_members k of
           None \<Rightarrow> False
         | Some t \<Rightarrow> primitive_of_type t v"
proof -
  from assms(2) have "(k, v) \<in> set ao" by (rule map_of_SomeD)
  with assms(1) show ?thesis
    unfolding is_SecretAttributes_def list_all_iff by fastforce
qed

lemma date_or_undefined: "primitive_of_type TDate v \<Longrightarrow> v = JUndefined \<or> (\<exists>d. v = JDate d)"
  by (cases v) auto

lemma bundle_attributes_typed:
  assumes "is_SecretBundle bundle"
  shows "get bundle ''attributes'' = JUndefined
         \<or> (\<exists>ao. get bundle ''attributes'' = JObj ao \<and> is_SecretAttributes (JObj ao))"
proof (cases "map_of bundle ''attributes''")
  case None
  then show ?thesis by (simp add: get_def)
next
  case (Some v)
  from bundle_member_typed [OF assms Some] have "is_SecretAttributes v"
    by (simp add: DeletedSecretBundle_members_def)
  then show ?thesis
    using Some by (cases v) (auto simp: get_def is_SecretAttributes_def)
qed

lemma bundle_no_timestamp:
  assumes "is_SecretBundle bundle" "k \<in> {''expires'', ''created'', ''updated''}"
  shows "map_of bundle k = None"
proof (cases "map_of bundle k")
  case None
  then show ?thesis .
next
  case (Some v)
  from bundle_member_typed [OF assms(1) Some] assms(2) show ?thesis
    by (auto simp: DeletedSecretBundle_members_def)
qed

lemma bundle_deletedDate_typed:
  assumes "is_SecretBundle bundle"
  shows "get bundle ''deletedDate'' = JUndefined \<or> (\<exists>d. get bundle ''deletedDate'' = JDate d)"
proof (cases "map_of bundle ''deletedDate''")
  case None
  then show ?thesis by (simp add: get_def)
next
  case (Some v)
  from bundle_member_typed [OF assms Some] have "primitive_of_type TDate v"
    by (simp add: DeletedSecretBundle_members_def)
  then show ?thesis using Some by (auto simp: get_def dest: date_or_undefined)
qed

lemma attributes_timestamp_typed:
  assumes "is_SecretAttributes (JObj ao)" "k \<in> {''expires'', ''created'', ''updated''}"
  shows "get ao k = JUndefined \<or> (\<exists>d. get ao k = JDate d)"
proof (cases "map_of ao k")
  case None
  then show ?thesis by (simp add: get_def)
next
  case (Some v)
  from attributes_member_typed [OF assms(1) Some] assms(2) have "primitive_of_type TDate v"
    by (auto simp: SecretAttributes_members_def)
  then show ?thesis using Some by (auto simp: get_def dest: date_or_undefined)
qed

lemma attributes_no_deletedDate:
  assumes "is_SecretAttributes (JObj ao)"
  shows "map_of ao ''deletedDate'' = None"
proof (cases "map_of ao ''deletedDate''")
  case None
  then show ?thesis .
next
  case (Some v)
  from attributes_member_typed [OF assms Some] show ?thesis
    by (simp add: SecretAttributes_members_def)
qed

lemma shaped_properties:
  assumes "fst (getSecretFromSecretBundle parse bundle) = Inr secret"
    and "get bundle ''attributes'' = JObj ao"
  shows "\<exists>parsedId. properties secret =
       delete_if (truthy (get ao ''updated'')) ''updated''
         (delete_if (truthy (get ao ''created'')) ''created''
         (delete_if (truthy (get ao ''expires'')) ''expires''
         (delete_if (truthy (get ao ''vaultUrl'')) ''vaultUrl''
           (if truthy (get bundle ''deletedDate'')
            then AList.delete ''deletedDate''
                   (AList.update ''deletedOn'' (get bundle ''deletedDate'')
                      (merged_properties parsedId bundle ao))
            else merged_properties parsedId bundle ao))))"
proof (cases "parse (get bundle ''id'')")
  case (Inl e)
  with assms(1) show ?thesis by (simp add: getSecretFromSecretBundle_def)
next
  case (Inr parsedId)
  have m: "member (JObj ao) k = Inr (get ao k)" for k by (simp add: member_def)
  have d: "get (AList.delete ''attributes'' bundle) ''deletedDate'' = get bundle ''deletedDate''"
    by (simp add: get_delete)
  from assms(1) have "properties secret =
       delete_if (truthy (get ao ''updated'')) ''updated''
         (delete_if (truthy (get ao ''created'')) ''created''
         (delete_if (truthy (get ao ''expires'')) ''expires''
         (delete_if (truthy (get ao ''vaultUrl'')) ''vaultUrl''
           (if truthy (get bundle ''deletedDate'')
            then AList.delete ''deletedDate''
                   (AList.update ''deletedOn'' (get bundle ''deletedDate'')
                      (merged_properties parsedId bundle ao))
            else merged_properties parsedId bundle ao))))"
    unfolding getSecretFromSecretBundle_def Inr assms(2) Let_def m member_or_undefined_def d
      merged_properties_def own_properties_def
    by auto
  then show ?thesis ..
qed

lemma merged_read:
  assumes "map_of bundle k = None"
    and "k \<notin> {''vaultUrl'', ''name'', ''version'', ''expiresOn'', ''createdOn'', ''updatedOn''}"
  shows "get (merged_properties parsedId bundle ao) k = get ao k"
proof -
  have 1: "map_of (AList.delete ''attributes'' bundle) k = None"
    using assms(1) by (simp add: delete_conv')
  have 2: "map_of (parsedId_properties parsedId) k = None"
    using assms(2) by (simp add: parsedId_properties_def)
  have 3: "get [(''vaultUrl'', v1), (''expiresOn'', v2), (''createdOn'', v3), (''updatedOn'', v4)] k
           = JUndefined" for v1 v2 v3 v4
    using assms(2) by (simp add: get_def)
  show ?thesis
    unfolding merged_properties_def get_spread 1 2 3
    by (simp add: get_def split: option.splits)
qed

lemma cleaned_read:
  "get (delete_if bu ''updated'' (delete_if bc ''created'' (delete_if be ''expires''
          (delete_if bv ''vaultUrl'' obj)))) k
   = (if (bu \<and> k = ''updated'') \<or> (bc \<and> k = ''created'') \<or> (be \<and> k = ''expires'')
         \<or> (bv \<and> k = ''vaultUrl'')
      then JUndefined else get obj k)"
  by (simp add: get_delete_if)

lemma absent_timestamp:
  assumes "v = JUndefined \<or> (\<exists>d. v = JDate d)"
  shows "(if truthy v then JUndefined else v) = JUndefined"
  using assms by auto

text \<open>
  Claim C6. For a bundle of the declared type on which the shaping returns, the result's
  properties never hold a renamed field together with its source: \<open>expires\<close>,
  \<open>created\<close>, \<open>updated\<close> and \<open>deletedDate\<close> all read \<open>undefined\<close>.
\<close>

theorem renamed_fields_exclusive:
  assumes "is_SecretBundle bundle"
    and "fst (getSecretFromSecretBundle parse bundle) = Inr secret"
  shows "(present (properties secret) ''expiresOn'' \<longrightarrow> \<not> present (properties secret) ''expires'')
       \<and> (present (properties secret) ''createdOn'' \<longrightarrow> \<not> present (properties secret) ''created'')
       \<and> (present (properties secret) ''updatedOn'' \<longrightarrow> \<not> present (properties secret) ''updated'')
       \<and> (present (properties secret) ''deletedOn'' \<longrightarrow> \<not> present (properties secret) ''deletedDate'')"
proof -
  have "get bundle ''attributes'' \<noteq> JUndefined"
  proof
    assume "get bundle ''attributes'' = JUndefined"
    then have "\<exists>e. fst (getSecretFromSecretBundle parse bundle) = Inl e"
      by (cases "parse (get bundle ''id'')")
         (simp_all add: getSecretFromSecretBundle_def Let_def member_def)
    with assms(2) show False by auto
  qed
  with bundle_attributes_typed [OF assms(1)] obtain ao
    where ao: "get bundle ''attributes'' = JObj ao" and typed: "is_SecretAttributes (JObj ao)"
    by blast
  from shaped_properties [OF assms(2) ao] obtain parsedId where
    props: "properties secret =
       delete_if (truthy (get ao ''updated'')) ''updated''
         (delete_if (truthy (get ao ''created'')) ''created''
         (delete_if (truthy (get ao ''expires'')) ''expires''
         (delete_if (truthy (get ao ''vaultUrl'')) ''vaultUrl''
           (if truthy (get bundle ''deletedDate'')
            then AList.delete ''deletedDate''
                   (AList.update ''deletedOn'' (get bundle ''deletedDate'')
                      (merged_properties parsedId bundle ao))
            else merged_properties parsedId bundle ao))))"
    by blast
  define merged where "merged = merged_properties parsedId bundle ao"
  define renamed where "renamed =
    (if truthy (get bundle ''deletedDate'')
     then AList.delete ''deletedDate'' (AList.update ''deletedOn'' (get bundle ''deletedDate'') merged)
     else merged)"
  have props': "properties secret =
       delete_if (truthy (get ao ''updated'')) ''updated''
         (delete_if (truthy (get ao ''created'')) ''created''
         (delete_if (truthy (get ao ''expires'')) ''expires''
         (delete_if (truthy (get ao ''vaultUrl'')) ''vaultUrl'' renamed)))"
    unfolding props renamed_def merged_def ..
  have renamed_other: "get renamed k = get merged k"
    if "k \<noteq> ''deletedDate''" "k \<noteq> ''deletedOn''" for k
    using that by (simp add: renamed_def get_delete get_update)
  have expires: "get (properties secret) ''expires'' = JUndefined"
  proof -
    have "get merged ''expires'' = get ao ''expires''"
      unfolding merged_def
      using bundle_no_timestamp [OF assms(1), of "''expires''"] by (intro merged_read) auto
    then have "get (properties secret) ''expires''
        = (if truthy (get ao ''expires'') then JUndefined else get ao ''expires'')"
      unfolding props' cleaned_read by (simp add: renamed_other)
    also have "\<dots> = JUndefined"
      using attributes_timestamp_typed [OF typed, of "''expires''"] by (intro absent_timestamp) auto
    finally show ?thesis .
  qed
  have created: "get (properties secret) ''created'' = JUndefined"
  proof -
    have "get merged ''created'' = get ao ''created''"
      unfolding merged_def
      using bundle_no_timestamp [OF assms(1), of "''created''"] by (intro merged_read) auto
    then have "get (properties secret) ''created''
        = (if truthy (get ao ''created'') then JUndefined else get ao ''created'')"
      unfolding props' cleaned_read by (simp add: renamed_other)
    also have "\<dots> = JUndefined"
      using attributes_timestamp_typed [OF typed, of "''created''"] by (intro absent_timestamp) auto
    finally show ?thesis .
  qed
  have updated: "get (properties secret) ''updated'' = JUndefined"
  proof -
    have "get merged ''updated'' = get ao ''updated''"
      unfolding merged_def
      using bundle_no_timestamp [OF assms(1), of "''updated''"] by (intro merged_read) auto
    then have "get (properties secret) ''updated''
        = (if truthy (get ao ''updated'') then JUndefined else get ao ''updated'')"
      unfolding props' cleaned_read by (simp add: renamed_other)
    also have "\<dots> = JUndefined"
      using attributes_timestamp_typed [OF typed, of "''updated''"] by (intro absent_timestamp) auto
    finally show ?thesis .
  qed
  have deleted: "get (properties secret) ''deletedDate'' = JUndefined"
  proof -
    have no: "map_of ao ''deletedDate'' = None" using typed by (rule attributes_no_deletedDate)
    have "get merged ''deletedDate'' = get bundle ''deletedDate''"
      unfolding merged_def merged_properties_def get_spread no
      by (simp add: parsedId_properties_def get_def delete_conv' split: option.splits)
    then have "get renamed ''deletedDate''
        = (if truthy (get bundle ''deletedDate'') then JUndefined else get bundle ''deletedDate'')"
      by (simp add: renamed_def get_delete)
    also have "\<dots> = JUndefined"
      using bundle_deletedDate_typed [OF assms(1)] by (intro absent_timestamp) auto
    finally show ?thesis unfolding props' cleaned_read by simp
  qed
  from expires created updated deleted show ?thesis by (simp add: present_def)
qed

text \<open>The theorem at a deleted bundle with an expiry and a creation date.\<close>

theorem renamed_fields_exclusive_witness:
  "is_SecretBundle sample_bundle
   \<and> fst (getSecretFromSecretBundle sample_parse sample_bundle) = Inr sample_secret
   \<and> present (properties sample_secret) ''expiresOn''
   \<and> \<not> present (properties sample_secret) ''expires''
   \<and> present (properties sample_secret) ''createdOn''
   \<and> \<not> present (properties sample_secret) ''created''
   \<and> present (properties sample_secret) ''deletedOn''
   \<and> \<not> present (properties sample_secret) ''deletedDate''"
proof -
  have typed: "is_SecretBundle sample_bundle"
    by (simp add: is_SecretBundle_def sample_bundle_def DeletedSecretBundle_members_def
        is_SecretAttributes_def SecretAttributes_members_def)
  have shaped: "fst (getSecretFromSecretBundle sample_parse sample_bundle) = Inr sample_secret"
    by (simp add: sample_parse_def sample_bundle_def parseKeyvaultEntityIdentifier_def get_def
        getSecretFromSecretBundle_def member_def member_or_undefined_def Let_def spread_def
        parsedId_properties_def own_properties_def delete_if_def sample_secret_def)
  have new: "present (properties sample_secret) ''expiresOn''"
    "present (properties sample_secret) ''createdOn''"
    "present (properties sample_secret) ''deletedOn''"
    by (simp_all add: present_def get_def sample_secret_def)
  from renamed_fields_exclusive [OF typed shaped] new typed shaped show ?thesis by blast
qed

section \<open>Properties of the paginated listing\<close>

lemma events_prepend [simp]: "events (prepend es r) = es @ events r"
  by (simp add: prepend_def)

lemma ending_prepend [simp]: "ending (prepend es r) = ending r"
  by (simp add: prepend_def)

lemma token_left_prepend [simp]: "token_left (prepend es r) = token_left r"
  by (simp add: prepend_def)

lemma page_loop_falsy:
  "\<not> truthy_string tok \<Longrightarrow>
   page_loop shape following tok rs = \<lparr>events = [], ending = Completed, token_left = tok\<rparr>"
  by (induction shape following tok rs rule: page_loop.induct) auto

lemma items_yielded_page: "items_yielded (map YieldItem page @ es) = page @ items_yielded es"
  by (induction page) auto

lemma concat_pages_items:
  "concat (pages_yielded es) = items_yielded (concat (map items_of_event es))"
  by (induction es rule: pages_yielded.induct) (auto simp: items_yielded_page)

lemma pages_any_page_size:
  "pages_yielded (events (page_generator shape initial following
      \<lparr>continuationToken = None, maxPageSize = m\<rparr> rs))
   = pages_yielded (events (page_generator shape initial following fresh_settings rs))"
  by (simp add: page_generator_def fresh_settings_def split: list.splits sum.splits option.splits)

text \<open>
  Claim C4. For each of the three list operations and every list of service responses, the
  pages that the by-page iterator yields, concatenated in order, are the items that the
  item-at-a-time iterator yields, in order. The by-page iterator starts without a
  continuation token, with any page size.
\<close>

theorem pages_concat_items:
  "concat (pages_yielded (events (listPropertiesOfSecretsPage parse vault
       \<lparr>continuationToken = None, maxPageSize = m\<rparr> rs)))
     = items_yielded (item_events (listPropertiesOfSecretsAll parse vault rs))
   \<and> concat (pages_yielded (events (listPropertiesOfSecretVersionsPage parse vault secretName
       \<lparr>continuationToken = None, maxPageSize = m\<rparr> rs)))
     = items_yielded (item_events (listPropertiesOfSecretVersionsAll parse vault secretName rs))
   \<and> concat (pages_yielded (events (listDeletedSecretsPage parse vault
       \<lparr>continuationToken = None, maxPageSize = m\<rparr> rs')))
     = items_yielded (item_events (listDeletedSecretsAll parse vault rs'))"
  by (simp add: listPropertiesOfSecretsPage_def listPropertiesOfSecretsAll_def
      listPropertiesOfSecretVersionsPage_def listPropertiesOfSecretVersionsAll_def
      listDeletedSecretsPage_def listDeletedSecretsAll_def
      for_await_items_def pages_any_page_size concat_pages_items)

lemma sample_shaped:
  "fst (getSecretFromSecretBundle sample_parse sample_bundle) = Inr sample_secret"
  by (simp add: sample_parse_def sample_bundle_def parseKeyvaultEntityIdentifier_def get_def
      getSecretFromSecretBundle_def member_def member_or_undefined_def Let_def spread_def
      parsedId_properties_def own_properties_def delete_if_def sample_secret_def)

lemma sample_shape_properties:
  "shape_properties sample_parse sample_bundle = Inr (properties sample_secret)"
  by (simp add: shape_properties_def sample_shaped)

text \<open>
  Claim C3: a very first response without \<open>value\<close> array ends the sequence at once,
  with zero items and no further fetch, whatever else the response holds. The code does
  not when that response carries a next-link: the first fetch has no early exit, unlike the
  loop of the same generator with its \<open>else break\<close>, so the page behind the link is
  fetched and its item is yielded.
\<close>

theorem first_page_without_value_fetches_on:
  "events (listPropertiesOfSecretsPage sample_parse sample_vault fresh_settings
     [Inr \<lparr>page_value = None, nextLink = Some sample_next\<rparr>,
      Inr \<lparr>page_value = Some [sample_bundle], nextLink = None\<rparr>])
   = [Fetch (getSecrets sample_vault None), Fetch (getSecrets sample_next None),
      Yield [properties sample_secret] ]"
  by (simp add: listPropertiesOfSecretsPage_def page_generator_def fresh_settings_def
      sample_next_def sample_shape_properties)

lemma loop_ends_as_contracted:
  assumes "\<forall>r\<in>set rs. shapes_well shape r" and "t \<noteq> []"
  shows "ends_as_contracted False shape rs (page_loop shape following (Some t) (map Inr rs))"
  using assms
proof (induction rs arbitrary: t)
  case Nil
  then show ?case by (simp add: ends_as_contracted_def)
next
  case (Cons r rs)
  show ?case
  proof (cases "page_value r")
    case None
    with Cons.prems show ?thesis
      by (simp add: ends_as_contracted_def ends_sequence_def)
  next
    case (Some bundles)
    with Cons.prems obtain page where page: "map_throwing shape bundles = Inr page"
      by (auto simp: shapes_well_def split: sum.splits)
    have run: "page_loop shape following (Some t) (map Inr (r # rs))
               = prepend [Fetch (following t), Yield page]
                   (page_loop shape following (nextLink r) (map Inr rs))"
      using Cons.prems(2) Some page by simp
    show ?thesis
    proof (cases "truthy_string (nextLink r)")
      case False
      then show ?thesis
        unfolding run page_loop_falsy [OF False]
        by (simp add: ends_as_contracted_def ends_sequence_def Some page)
    next
      case True
      then obtain t' where t': "nextLink r = Some t'" "t' \<noteq> []"
        by (cases "nextLink r") auto
      have "ends_as_contracted False shape rs (page_loop shape following (Some t') (map Inr rs))"
        using Cons.prems(1) t'(2) by (intro Cons.IH) auto
      then show ?thesis
        unfolding run t'(1)
        using True Some page
        by (auto simp: ends_as_contracted_def ends_sequence_def split: option.splits)
    qed
  qed
qed

lemma fetches_issued_append:
  "fetches_issued (es @ es') = fetches_issued es @ fetches_issued es'"
  by (induction es rule: fetches_issued.induct) auto

lemma pages_yielded_append:
  "pages_yielded (es @ es') = pages_yielded es @ pages_yielded es'"
  by (induction es rule: pages_yielded.induct) auto

lemma pages_of_Cons: "pages_of shape (r # rs) = pages_of shape [r] @ pages_of shape rs"
  by (simp split: option.splits sum.splits)

lemma first_response_ends_as_contracted:
  assumes "\<forall>r\<in>set rest. shapes_well shape r"
    and "pages_yielded ys = pages_of shape [r]" and "fetches_issued ys = []"
  shows "ends_as_contracted True shape (r # rest)
           (prepend (Fetch q # ys) (page_loop shape following (nextLink r) (map Inr rest)))"
proof (cases "truthy_string (nextLink r)")
  case False
  have "pages_of shape (take (Suc 0) (r # rest)) = pages_of shape [r]" by simp
  then show ?thesis
    unfolding page_loop_falsy [OF False] ends_as_contracted_def
    using False assms(2,3) by (simp add: ends_sequence_def prepend_def)
next
  case True
  then obtain t' where t': "nextLink r = Some t'" "t' \<noteq> []"
    by (cases "nextLink r") auto
  define run where "run = page_loop shape following (Some t') (map Inr rest)"
  have IH: "ends_as_contracted False shape rest run"
    unfolding run_def using assms(1) t'(2) by (rule loop_ends_as_contracted)
  have first: "first_ending True (r # rest) = map_option Suc (first_ending False rest)"
    using True by (simp add: ends_sequence_def)
  have ev: "fetches_issued (events (prepend (Fetch q # ys) run)) = q # fetches_issued (events run)"
    "pages_yielded (events (prepend (Fetch q # ys) run)) = pages_of shape [r] @ pages_yielded (events run)"
    "ending (prepend (Fetch q # ys) run) = ending run"
    using assms(2,3) by (simp_all add: fetches_issued_append pages_yielded_append)
  show ?thesis
  proof (cases "first_ending False rest")
    case None
    with IH show ?thesis
      unfolding t'(1) run_def [symmetric] ends_as_contracted_def first ev
      using pages_of_Cons [of shape r rest] by simp
  next
    case (Some n)
    have "pages_of shape (take (Suc (Suc n)) (r # rest))
          = pages_of shape [r] @ pages_of shape (take (Suc n) rest)"
      using pages_of_Cons [of shape r "take (Suc n) rest"] by simp
    with Some IH show ?thesis
      unfolding t'(1) run_def [symmetric] ends_as_contracted_def first ev
      by simp
  qed
qed

lemma generator_ends_as_contracted:
  assumes "\<forall>r\<in>set rs. shapes_well shape r" and "continuationToken st \<noteq> Some []"
  shows "ends_as_contracted (continuationToken st = None) shape rs
           (page_generator shape initial following st (map Inr rs))"
proof (cases "continuationToken st")
  case (Some t)
  with assms(2) have "t \<noteq> []" by auto
  from loop_ends_as_contracted [OF assms(1) this] Some show ?thesis
    by (simp add: page_generator_def)
next
  case None
  show ?thesis
  proof (cases rs)
    case Nil
    with None show ?thesis by (simp add: page_generator_def ends_as_contracted_def)
  next
    case (Cons r rest)
    have wrest: "\<forall>r\<in>set rest. shapes_well shape r" using assms(1) Cons by simp
    show ?thesis
    proof (cases "page_value r")
      case no_value: None
      have "page_generator shape initial following st (map Inr rs)
            = prepend (Fetch (initial (maxPageSize st)) # [])
                (page_loop shape following (nextLink r) (map Inr rest))"
        using None Cons no_value by (simp add: page_generator_def)
      moreover have "pages_yielded [] = pages_of shape [r]" using no_value by simp
      ultimately show ?thesis
        using first_response_ends_as_contracted [OF wrest, of "[]" r] None Cons by simp
    next
      case (Some bundles)
      with assms(1) Cons obtain page where page: "map_throwing shape bundles = Inr page"
        by (auto simp: shapes_well_def split: sum.splits)
      have "page_generator shape initial following st (map Inr rs)
            = prepend (Fetch (initial (maxPageSize st)) # [Yield page])
                (page_loop shape following (nextLink r) (map Inr rest))"
        using None Cons Some page by (simp add: page_generator_def)
      moreover have "pages_yielded [Yield page] = pages_of shape [r]" using Some page by simp
      ultimately show ?thesis
        using first_response_ends_as_contracted [OF wrest, of "[Yield page]" r] None Cons by simp
    qed
  qed
qed

lemma generator_run_as_contracted:
  assumes "\<forall>r\<in>set rs. shapes_well shape r"
  shows "run_as_contracted st shape rs (page_generator shape initial following st (map Inr rs))"
proof (cases "continuationToken st = Some []")
  case True
  have "\<not> truthy_string (Some [])" by simp
  from page_loop_falsy [OF this] True show ?thesis
    by (simp add: run_as_contracted_def page_generator_def)
next
  case False
  from generator_ends_as_contracted [OF assms False] False show ?thesis
    by (simp add: run_as_contracted_def)
qed

text \<open>
  Claim C2, as the code has it. For each list operation, when no fetch is rejected and
  every bundle can be shaped, the page sequence completes at the first response that
  carries no next-link, or that is not the first response of the run and has no
  \<open>value\<close> array. Exactly the responses up to that one are fetched, none afterwards,
  and the \<open>value\<close> arrays of all of them are yielded in order, the last one's included.
  A run resumed from a continuation token has no first response in this sense, and a run
  resumed from an empty token fetches nothing and completes at once.
\<close>

theorem sequence_end:
  assumes "\<forall>r\<in>set rs. shapes_well (shape_properties parse) r"
    and "\<forall>r\<in>set rs. shapes_well (shape_secret parse) r"
  shows "run_as_contracted continuationState (shape_properties parse) rs
           (listPropertiesOfSecretsPage parse vault continuationState (map Inr rs))
       \<and> run_as_contracted continuationState (shape_properties parse) rs
           (listPropertiesOfSecretVersionsPage parse vault secretName continuationState (map Inr rs))
       \<and> run_as_contracted continuationState (shape_secret parse) rs
           (listDeletedSecretsPage parse vault continuationState (map Inr rs))"
  unfolding listPropertiesOfSecretsPage_def listPropertiesOfSecretVersionsPage_def
    listDeletedSecretsPage_def
  using generator_run_as_contracted [OF assms(1)] generator_run_as_contracted [OF assms(2)]
  by blast

lemma sample_shape_secret: "shape_secret sample_parse sample_bundle = Inr sample_secret"
  by (simp add: shape_secret_def sample_shaped)

text \<open>
  The theorem at three responses: a page with a next-link, a response without
  \<open>value\<close> array that still carries a next-link, and a last page that is never
  fetched; from a fresh settings object, and from an empty continuation token.
\<close>

theorem sequence_end_witness:
  "first_ending True sample_responses = Some 1
   \<and> ends_as_contracted True (shape_properties sample_parse) sample_responses
       (listPropertiesOfSecretsPage sample_parse sample_vault fresh_settings
          (map Inr sample_responses))
   \<and> ends_as_contracted True (shape_secret sample_parse) sample_responses
       (listDeletedSecretsPage sample_parse sample_vault fresh_settings
          (map Inr sample_responses))
   \<and> listPropertiesOfSecretsPage sample_parse sample_vault
        \<lparr>continuationToken = Some [], maxPageSize = None\<rparr> (map Inr sample_responses)
      = \<lparr>events = [], ending = Completed, token_left = Some []\<rparr>"
proof -
  have w1: "\<forall>r\<in>set sample_responses. shapes_well (shape_properties sample_parse) r"
    by (simp add: sample_responses_def shapes_well_def sample_shape_properties)
  have w2: "\<forall>r\<in>set sample_responses. shapes_well (shape_secret sample_parse) r"
    by (simp add: sample_responses_def shapes_well_def sample_shape_secret)
  have tok: "continuationToken fresh_settings \<noteq> Some []" "continuationToken fresh_settings = None"
    by (simp_all add: fresh_settings_def)
  have fe: "first_ending True sample_responses = Some 1"
    by (simp add: sample_responses_def ends_sequence_def sample_next_def sample_next2_def)
  from sequence_end [OF w1 w2, of fresh_settings sample_vault] tok fe
    sequence_end [OF w1 w2, of "\<lparr>continuationToken = Some [], maxPageSize = None\<rparr>" sample_vault]
  show ?thesis by (simp add: run_as_contracted_def)
qed

text \<open>
  Claim C2 as stated fails: the sequence completes at the second response, which has no
  \<open>value\<close> array but does carry a next-link; the page behind that link is never
  fetched.
\<close>

theorem sequence_end_counterexample:
  "ending (listPropertiesOfSecretsPage sample_parse sample_vault fresh_settings
      (map Inr sample_responses)) = Completed
   \<and> fetches_issued (events (listPropertiesOfSecretsPage sample_parse sample_vault fresh_settings
      (map Inr sample_responses)))
     = [getSecrets sample_vault None, getSecrets sample_next None]
   \<and> nextLink (sample_responses ! 1) = Some sample_next2
   \<and> truthy_string (Some sample_next2)"
  by (simp add: listPropertiesOfSecretsPage_def page_generator_def fresh_settings_def
      sample_responses_def sample_next_def sample_next2_def sample_shape_properties)

lemma parse_secrets_identifier:
  assumes "CHR ''/'' \<notin> set scheme" and "CHR ''/'' \<notin> set host" and "CHR ''/'' \<notin> set name"
  shows "parseKeyvaultEntityIdentifier ''secrets'' (JStr (scheme @ ''//'' @ host @ ''/secrets/'' @ name))
         = Inr \<lparr>parsed_vaultUrl = scheme @ ''//'' @ host, parsed_name = name,
                parsed_version = None\<rparr>"
proof -
  have 1: "split_on CHR ''/'' (''secrets'' @ CHR ''/'' # name) = ''secrets'' # split_on CHR ''/'' name"
    by (rule split_on_append) simp
  have 2: "split_on CHR ''/'' (host @ CHR ''/'' # (''secrets'' @ CHR ''/'' # name))
           = host # split_on CHR ''/'' (''secrets'' @ CHR ''/'' # name)"
    using assms(2) by (rule split_on_append)
  have 3: "split_on CHR ''/'' ([] @ CHR ''/'' # (host @ CHR ''/'' # (''secrets'' @ CHR ''/'' # name)))
           = [] # split_on CHR ''/'' (host @ CHR ''/'' # (''secrets'' @ CHR ''/'' # name))"
    by (rule split_on_append) simp
  have 4: "split_on CHR ''/'' (scheme @ CHR ''/'' # ([] @ CHR ''/'' # (host @ CHR ''/'' # (''secrets'' @ CHR ''/'' # name))))
           = scheme # split_on CHR ''/'' ([] @ CHR ''/'' # (host @ CHR ''/'' # (''secrets'' @ CHR ''/'' # name)))"
    using assms(1) by (rule split_on_append)
  have "split_on CHR ''/'' (scheme @ CHR ''/'' # ([] @ CHR ''/'' # (host @ CHR ''/'' # (''secrets'' @ CHR ''/'' # name))))
        = [scheme, [], host, ''secrets'', name]"
    unfolding 4 3 2 1 using assms(3) by (simp add: split_on_none)
  moreover have "scheme @ ''//'' @ host @ ''/secrets/'' @ name
        = scheme @ CHR ''/'' # ([] @ CHR ''/'' # (host @ CHR ''/'' # (''secrets'' @ CHR ''/'' # name)))"
    by simp
  ultimately have "split_on CHR ''/'' (scheme @ ''//'' @ host @ ''/secrets/'' @ name)
        = [scheme, [], host, ''secrets'', name]"
    by (simp only:)
  then show ?thesis
    by (simp add: parseKeyvaultEntityIdentifier_def)
qed

lemma shape_secret_name:
  assumes "parse (get bundle ''id'') = Inr parsedId" and "get bundle ''attributes'' = JObj ao"
  shows "\<exists>secret. shape_secret parse bundle = Inr secret \<and> secret_name secret = parsed_name parsedId"
  using assms
  by (simp add: shape_secret_def getSecretFromSecretBundle_def Let_def member_def)

text \<open>
  Claim C7, on the identifier parser as the specification describes it. A single response
  whose \<open>value\<close> array holds two bundles, each with its \<open>attributes\<close> object, with
  identifiers \<open>/secrets/A\<close> and \<open>/secrets/B\<close> behind a vault URL, and without
  next-link, makes the deleted-secrets page generator yield one page of two secrets named
  \<open>A\<close> and \<open>B\<close>, after one fetch, and complete.
\<close>

theorem deleted_page_names:
  assumes "CHR ''/'' \<notin> set scheme" and "CHR ''/'' \<notin> set host"
    and "get b1 ''id'' = JStr (scheme @ ''//'' @ host @ ''/secrets/A'')"
    and "get b2 ''id'' = JStr (scheme @ ''//'' @ host @ ''/secrets/B'')"
    and "get b1 ''attributes'' = JObj a1" and "get b2 ''attributes'' = JObj a2"
  shows "map (map secret_name) (pages_yielded (events
           (listDeletedSecretsPage (parseKeyvaultEntityIdentifier ''secrets'') vault
              \<lparr>continuationToken = None, maxPageSize = m\<rparr>
              [Inr \<lparr>page_value = Some [b1, b2], nextLink = None\<rparr>]))) = [ [''A'', ''B''] ]
       \<and> fetches_issued (events
           (listDeletedSecretsPage (parseKeyvaultEntityIdentifier ''secrets'') vault
              \<lparr>continuationToken = None, maxPageSize = m\<rparr>
              [Inr \<lparr>page_value = Some [b1, b2], nextLink = None\<rparr>]))
         = [getDeletedSecrets vault m]
       \<and> ending
           (listDeletedSecretsPage (parseKeyvaultEntityIdentifier ''secrets'') vault
              \<lparr>continuationToken = None, maxPageSize = m\<rparr>
              [Inr \<lparr>page_value = Some [b1, b2], nextLink = None\<rparr>]) = Completed"
proof -
  let ?parse = "parseKeyvaultEntityIdentifier ''secrets''"
  have pa: "?parse (get b1 ''id'')
      = Inr \<lparr>parsed_vaultUrl = scheme @ ''//'' @ host, parsed_name = ''A'', parsed_version = None\<rparr>"
    unfolding assms(3)
    using parse_secrets_identifier [OF assms(1,2), of "''A''"] by simp
  have pb: "?parse (get b2 ''id'')
      = Inr \<lparr>parsed_vaultUrl = scheme @ ''//'' @ host, parsed_name = ''B'', parsed_version = None\<rparr>"
    unfolding assms(4)
    using parse_secrets_identifier [OF assms(1,2), of "''B''"] by simp
  from shape_secret_name [of "?parse" b1, OF pa assms(5)] obtain sa
    where sa: "shape_secret ?parse b1 = Inr sa" "secret_name sa = ''A''" by auto
  from shape_secret_name [of "?parse" b2, OF pb assms(6)] obtain sb
    where sb: "shape_secret ?parse b2 = Inr sb" "secret_name sb = ''B''" by auto
  show ?thesis
    by (simp add: listDeletedSecretsPage_def page_generator_def sa sb)
qed

text \<open>The theorem at two deleted secrets of the sample vault.\<close>

theorem deleted_page_names_witness:
  "get sample_deleted_A ''id'' = JStr (''https:'' @ ''//'' @ ''myvault.vault.azure.net'' @ ''/secrets/A'')
   \<and> get sample_deleted_A ''attributes'' = JObj [(''enabled'', JBool True)]
   \<and> map (map secret_name) (pages_yielded (events
        (listDeletedSecretsPage (parseKeyvaultEntityIdentifier ''secrets'') sample_vault
           \<lparr>continuationToken = None, maxPageSize = None\<rparr>
           [Inr \<lparr>page_value = Some [sample_deleted_A, sample_deleted_B], nextLink = None\<rparr>])))
      = [ [''A'', ''B''] ]
   \<and> ending
        (listDeletedSecretsPage (parseKeyvaultEntityIdentifier ''secrets'') sample_vault
           \<lparr>continuationToken = None, maxPageSize = None\<rparr>
           [Inr \<lparr>page_value = Some [sample_deleted_A, sample_deleted_B], nextLink = None\<rparr>])
      = Completed"
proof -
  have s: "CHR ''/'' \<notin> set ''https:''" "CHR ''/'' \<notin> set ''myvault.vault.azure.net''"
    by simp_all
  have ia: "get sample_deleted_A ''id''
            = JStr (''https:'' @ ''//'' @ ''myvault.vault.azure.net'' @ ''/secrets/A'')"
    and ib: "get sample_deleted_B ''id''
            = JStr (''https:'' @ ''//'' @ ''myvault.vault.azure.net'' @ ''/secrets/B'')"
    and aa: "get sample_deleted_A ''attributes'' = JObj [(''enabled'', JBool True)]"
    and ab: "get sample_deleted_B ''attributes'' = JObj [(''enabled'', JBool True)]"
    by (simp_all add: sample_deleted_A_def sample_deleted_B_def get_def)
  from deleted_page_names [OF s ia ib aa ab, of sample_vault None] ia aa
  show ?thesis by blast
qed

text \<open>
  Claim C7 as stated fails: called for the collection \<open>secrets\<close>, the parser rejects
  an identifier that ends in \<open>/deletedsecrets/A\<close>, so on the page of the
  specification's example the generator yields nothing and throws.
\<close>

theorem deletedsecrets_identifier_counterexample:
  "pages_yielded (events (listDeletedSecretsPage sample_parse sample_vault fresh_settings
      [Inr deleted_example_with_attributes])) = []
   \<and> ending (listDeletedSecretsPage sample_parse sample_vault fresh_settings
      [Inr deleted_example_with_attributes])
     = Thrown (Error ''Invalid secrets identifier: https://myvault.vault.azure.net/deletedsecrets/A'')"
  by (simp add: listDeletedSecretsPage_def page_generator_def fresh_settings_def
      deleted_example_with_attributes_def shape_secret_def getSecretFromSecretBundle_def
      get_def sample_parse_def parseKeyvaultEntityIdentifier_def)

section \<open>Properties of the pollers\<close>

lemma poll_step: "step_number (status st) \<le> step_number (status (poller (poll r st)))"
  by (cases "status st"; cases r) (simp_all add: poll_def)

lemma poll_terminal:
  "terminal (status st) \<Longrightarrow> poll r st = \<lparr>poller = st, requests = [], raised = None\<rparr>"
  by (cases "status st") (simp_all add: poll_def)

lemma poll_many_step:
  "step_number (status st) \<le> step_number (status (fst (poll_many rs st)))"
proof (induction rs arbitrary: st)
  case Nil
  show ?case by simp
next
  case (Cons r rs)
  have "step_number (status st) \<le> step_number (status (poller (poll r st)))"
    by (rule poll_step)
  also have "\<dots> \<le> step_number (status (fst (poll_many rs (poller (poll r st)))))"
    by (rule Cons.IH)
  finally show ?case by (simp add: Let_def split_beta)
qed

lemma poll_many_terminal: "terminal (status st) \<Longrightarrow> poll_many rs st = (st, [])"
proof (induction rs)
  case Nil
  show ?case by simp
next
  case (Cons r rs)
  then show ?case by (simp add: poll_terminal)
qed

text \<open>
  Claim C9. A poll never moves the status backwards along \<open>NotStarted\<close>,
  \<open>InProgress\<close>, terminal; and in a terminal status a poll, or any number of polls,
  issues no request and leaves the state as it is. The same holds for the first poll that
  \<open>beginDeleteSecret\<close> and \<open>beginRecoverDeletedSecret\<close> make on a poller resumed in
  a terminal status.
\<close>

theorem poller_monotonic:
  "step_number (status st) \<le> step_number (status (poller (poll r st)))
   \<and> step_number (status st) \<le> step_number (status (fst (poll_many rs st)))
   \<and> (terminal (status st) \<longrightarrow>
        poll r st = \<lparr>poller = st, requests = [], raised = None\<rparr>
        \<and> poll_many rs st = (st, [])
        \<and> status (poller (beginDeleteSecret name (Some st) r)) = status st
        \<and> requests (beginDeleteSecret name (Some st) r) = []
        \<and> status (poller (beginRecoverDeletedSecret name (Some st) r)) = status st
        \<and> requests (beginRecoverDeletedSecret name (Some st) r) = [])"
proof -
  have "status (poller (beginDeleteSecret name (Some st) r)) = status st
        \<and> requests (beginDeleteSecret name (Some st) r) = []
        \<and> status (poller (beginRecoverDeletedSecret name (Some st) r)) = status st
        \<and> requests (beginRecoverDeletedSecret name (Some st) r) = []"
    if "terminal (status st)"
  proof -
    have "terminal (status (st\<lparr>kind := k, resourceName := name\<rparr>))" for k
      using that by simp
    from poll_terminal [OF this] show ?thesis
      by (simp add: beginDeleteSecret_def beginRecoverDeletedSecret_def new_poller_def)
  qed
  then show ?thesis
    using poll_step [of st r] poll_many_step [of st rs] poll_terminal [of st r]
      poll_many_terminal [of st rs]
    by blast
qed

text \<open>The theorem at a delete poller that has succeeded.\<close>

theorem poller_monotonic_witness:
  "terminal (status sample_poller)
   \<and> poll Answered sample_poller = \<lparr>poller = sample_poller, requests = [], raised = None\<rparr>
   \<and> poll_many [NotFound, Rejected (Error ''Forbidden''), Answered] sample_poller
     = (sample_poller, [])"
proof -
  have t: "terminal (status sample_poller)" by (simp add: sample_poller_def)
  from poller_monotonic [of sample_poller Answered
      "[NotFound, Rejected (Error ''Forbidden''), Answered]"] t
  show ?thesis by blast
qed

end
